theory Spec2Isabelle
  imports Complex_Main "HOL-Library.Char_ord" "HOL-Library.List_Lexorder"
begin

section \<open>Python values\<close>

text \<open>
  Exceptions are values: a computation that may raise returns \<open>pyerr + 'a\<close>, with
  \<open>Inl\<close> for the exception raised.
\<close>

datatype pyerr =
    ValueError | TypeError | KeyError | AttributeError | ZeroDivisionError
  | OverflowError | AssertionError | FileNotFoundError | OSError
  | RequestError string | Exception string

text \<open>
  A raw value is what a record of the upstream provider or of the request schema holds:
  \<^verbatim>\<open>None\<close>, an integer (a \<^verbatim>\<open>bool\<close> is the integer 0 or 1), a finite float, a string, a
  list or a dictionary. A float computed by the program can also be \<^verbatim>\<open>nan\<close> or infinite.
  A finite float is modelled as the real number it stands for, and arithmetic on raw
  values is exact: rounding is outside the model. The range of the floats is part of
  the conversion of integers and strings to float, below.
\<close>

datatype rawval =
    RNone | RInt int | RFloat real | RStr string
  | RList "rawval list" | RDict "(string \<times> rawval) list"

datatype pyfloat = Fin real | NaN | PosInf | NegInf

definition num_of :: "rawval \<Rightarrow> real option" where
  "num_of v = (case v of RInt i \<Rightarrow> Some (of_int i) | RFloat x \<Rightarrow> Some x | _ \<Rightarrow> None)"

text \<open>\<^verbatim>\<open>v >= n\<close> and \<^verbatim>\<open>v > n\<close> for a number \<open>n\<close>: a \<^verbatim>\<open>TypeError\<close> unless \<open>v\<close> is a number.\<close>

definition py_ge_num :: "rawval \<Rightarrow> real \<Rightarrow> pyerr + bool" where
  "py_ge_num v n = (case num_of v of None \<Rightarrow> Inl TypeError | Some x \<Rightarrow> Inr (x \<ge> n))"

definition py_gt_num :: "rawval \<Rightarrow> real \<Rightarrow> pyerr + bool" where
  "py_gt_num v n = (case num_of v of None \<Rightarrow> Inl TypeError | Some x \<Rightarrow> Inr (x > n))"

text \<open>The truth value of a raw value in a condition.\<close>

definition py_truthy :: "rawval \<Rightarrow> bool" where
  "py_truthy v =
     (case v of RNone \<Rightarrow> False | RInt i \<Rightarrow> i \<noteq> 0 | RFloat x \<Rightarrow> x \<noteq> 0
      | RStr s \<Rightarrow> s \<noteq> [] | RList l \<Rightarrow> l \<noteq> [] | RDict d \<Rightarrow> d \<noteq> [])"

text \<open>The decimal text of a count, as an f-string prints it.\<close>

fun str_of_nat :: "nat \<Rightarrow> string" where
  "str_of_nat n =
     (if n < 10 then [''0123456789'' ! n]
      else str_of_nat (n div 10) @ [''0123456789'' ! (n mod 10)])"

text \<open>
  The distinct elements of a list in the order in which they first appear: the order of
  the keys of a dictionary filled from the list.
\<close>

definition first_seen :: "'a list \<Rightarrow> 'a list" where
  "first_seen xs = rev (remdups (rev xs))"

text \<open>\<^verbatim>\<open>s.upper()\<close> and \<^verbatim>\<open>s.lower()\<close> on ASCII text.\<close>

definition upper_char :: "char \<Rightarrow> char" where
  "upper_char c =
     (case map_of (zip ''abcdefghijklmnopqrstuvwxyz'' ''ABCDEFGHIJKLMNOPQRSTUVWXYZ'') c of
        None \<Rightarrow> c | Some u \<Rightarrow> u)"

definition lower_char :: "char \<Rightarrow> char" where
  "lower_char c =
     (case map_of (zip ''ABCDEFGHIJKLMNOPQRSTUVWXYZ'' ''abcdefghijklmnopqrstuvwxyz'') c of
        None \<Rightarrow> c | Some l \<Rightarrow> l)"

definition upper :: "string \<Rightarrow> string" where
  "upper s = map upper_char s"

definition lower :: "string \<Rightarrow> string" where
  "lower s = map lower_char s"

section \<open>Dataset synthesizer: prediction targets\<close>

text \<open>
  \<^verbatim>\<open>app/training/train_models.py\<close>. A data frame is the list of its rows; a row is a
  record of the columns the training code reads. Python floats are modelled as real
  numbers: rounding and overflow of finite values are outside the model.
\<close>

record player_row =
  player_id :: int
  name :: string
  position :: string
  price :: real
  form :: real
  points_per_game :: real
  minutes :: real
  goals_scored :: "real option"
  assists :: "real option"
  clean_sheets :: "real option"
  ict_index :: "real option"
  bonus :: "real option"
  team_strength :: "real option"
  avg_fixture_difficulty :: real

record scored_row = player_row +
  next_gw_points :: real

record captain_row = scored_row +
  captain_points :: real

text \<open>
  \<open>prepare_prediction_dataset\<close>, lines 64-85. The vector drawn by
  \<^verbatim>\<open>np.random.normal(0, 1, size=len(df))\<close> after \<^verbatim>\<open>np.random.seed(42)\<close> is the
  parameter \<open>z\<close>: \<open>z i\<close> is the draw for row \<open>i\<close>.
\<close>

definition form_factor :: real where
  "form_factor = 0.2"

definition fixture_factor :: real where
  "fixture_factor = 0.15"

definition next_gw_points_of :: "player_row \<Rightarrow> real" where
  "next_gw_points_of r =
     (let x0 = points_per_game r;
          x1 = x0 + (form r - points_per_game r) * form_factor;
          x2 = x1 - (avg_fixture_difficulty r - 2.5) * fixture_factor
      in max 0 x2)"

definition captain_points_of :: "real \<Rightarrow> real \<Rightarrow> real" where
  "captain_points_of nxt zi =
     (let c0 = nxt * 2;
          variance = zi * (nxt * 0.3);
          c1 = c0 + variance
      in max 0 c1)"

definition prediction_row :: "(nat \<Rightarrow> real) \<Rightarrow> nat \<times> player_row \<Rightarrow> captain_row" where
  "prediction_row z ir =
     (let sr = player_row.extend (snd ir) (scored_row.fields (next_gw_points_of (snd ir)));
          cr = scored_row.extend sr
                 (captain_row.fields (captain_points_of (next_gw_points sr) (z (fst ir))))
      in cr)"

definition prepare_prediction_dataset :: "(nat \<Rightarrow> real) \<Rightarrow> player_row list \<Rightarrow> captain_row list" where
  "prepare_prediction_dataset z df = map (prediction_row z) (enumerate 0 df)"


section \<open>Dataset synthesizer: transfer pairs\<close>

text \<open>
  \<open>prepare_transfer_dataset\<close>, lines 109-185. The emitted row has the keys of the
  \<^verbatim>\<open>transfer_data\<close> dictionary; its key \<^verbatim>\<open>position\<close> is the field \<open>transfer_position\<close>
  here, \<open>position\<close> being the column of the input rows.
\<close>

record transfer_row =
  player_in_id :: int
  player_out_id :: int
  player_in_name :: string
  player_out_name :: string
  transfer_position :: string
  player_in_form :: real
  player_in_points_per_game :: real
  player_in_minutes :: real
  player_in_goals :: real
  player_in_assists :: real
  player_in_clean_sheets :: real
  player_in_fixture_difficulty :: real
  player_in_ict :: real
  player_in_bonus :: real
  player_in_price :: real
  player_out_form :: real
  player_out_points_per_game :: real
  player_out_minutes :: real
  player_out_goals :: real
  player_out_assists :: real
  player_out_clean_sheets :: real
  player_out_fixture_difficulty :: real
  player_out_ict :: real
  player_out_bonus :: real
  player_out_price :: real
  form_diff :: real
  price_diff :: real
  fixture_diff :: real
  team_strength_diff :: real
  points_delta :: real

text \<open>\<^verbatim>\<open>row.get(column, 0)\<close> on a column that may be absent.\<close>

definition get0 :: "real option \<Rightarrow> real" where
  "get0 v = (case v of None \<Rightarrow> 0 | Some x \<Rightarrow> x)"

definition position_weights :: "string \<Rightarrow> real" where
  "position_weights p =
     (if p = ''GK'' then 0.1
      else if p = ''DEF'' then 0.35
      else if p = ''MID'' then 0.35
      else if p = ''FWD'' then 0.2
      else 0.25)"

text \<open>
  \<^verbatim>\<open>int(num_pairs * position_weights.get(str(position), 0.25))\<close>; \<open>num_pairs\<close> is a
  count, so the truncation of \<^verbatim>\<open>int\<close> is the floor.
\<close>

definition position_pairs :: "nat \<Rightarrow> string \<Rightarrow> nat" where
  "position_pairs num_pairs p = nat \<lfloor>real num_pairs * position_weights p\<rfloor>"

text \<open>
  \<^verbatim>\<open>group.sample(n=..., replace=True)\<close>: \<open>n\<close> rows of the group, drawn with replacement.
  The draws are the parameter \<open>pick\<close>: draw \<open>k\<close> selects the row at index
  \<open>pick k mod length grp\<close>.
\<close>

definition sample_rows :: "(nat \<Rightarrow> nat) \<Rightarrow> 'a list \<Rightarrow> nat \<Rightarrow> 'a list" where
  "sample_rows pick grp n = map (\<lambda>k. grp ! (pick k mod length grp)) [0..<n]"

definition transfer_data :: "string \<Rightarrow> scored_row \<Rightarrow> scored_row \<Rightarrow> real \<Rightarrow> transfer_row" where
  "transfer_data pos player_out player_in nz =
     (let raw_point_diff = next_gw_points player_in - next_gw_points player_out;
          variance = nz * 2;
          point_impact = raw_point_diff + variance
      in \<lparr>player_in_id = player_id player_in,
          player_out_id = player_id player_out,
          player_in_name = name player_in,
          player_out_name = name player_out,
          transfer_position = pos,
          player_in_form = form player_in,
          player_in_points_per_game = points_per_game player_in,
          player_in_minutes = minutes player_in,
          player_in_goals = get0 (goals_scored player_in),
          player_in_assists = get0 (assists player_in),
          player_in_clean_sheets = get0 (clean_sheets player_in),
          player_in_fixture_difficulty = avg_fixture_difficulty player_in,
          player_in_ict = get0 (ict_index player_in),
          player_in_bonus = get0 (bonus player_in),
          player_in_price = price player_in,
          player_out_form = form player_out,
          player_out_points_per_game = points_per_game player_out,
          player_out_minutes = minutes player_out,
          player_out_goals = get0 (goals_scored player_out),
          player_out_assists = get0 (assists player_out),
          player_out_clean_sheets = get0 (clean_sheets player_out),
          player_out_fixture_difficulty = avg_fixture_difficulty player_out,
          player_out_ict = get0 (ict_index player_out),
          player_out_bonus = get0 (bonus player_out),
          player_out_price = price player_out,
          form_diff = form player_in - form player_out,
          price_diff = price player_in - price player_out,
          fixture_diff = avg_fixture_difficulty player_out - avg_fixture_difficulty player_in,
          team_strength_diff = get0 (team_strength player_in) - get0 (team_strength player_out),
          points_delta = point_impact\<rparr>)"

text \<open>
  The loop \<^verbatim>\<open>for i in range(0, min(len(players) - 1, position_pairs))\<close> with its
  \<^verbatim>\<open>continue\<close> on equal identifiers. \<open>noise i\<close> is the draw of
  \<^verbatim>\<open>np.random.normal(0, 1)\<close> made for index \<open>i\<close>.
\<close>

definition pair_at :: "string \<Rightarrow> scored_row list \<Rightarrow> (nat \<Rightarrow> real) \<Rightarrow> nat \<Rightarrow> transfer_row list" where
  "pair_at pos players noise i =
     (let player_out = players ! i;
          player_in = players ! (i + 1)
      in if player_id player_out = player_id player_in then []
         else [transfer_data pos player_out player_in (noise i)])"

definition position_transfer_rows ::
  "string \<Rightarrow> scored_row list \<Rightarrow> nat \<Rightarrow> (nat \<Rightarrow> real) \<Rightarrow> transfer_row list" where
  "position_transfer_rows pos players pp noise =
     concat (map (pair_at pos players noise)
       [0..<nat (min (int (length players) - 1) (int pp))])"

text \<open>
  \<^verbatim>\<open>df.groupby('position')\<close> iterates over the distinct positions in sorted order, each
  with the rows of that position in their original order.
\<close>

definition groupby_position :: "scored_row list \<Rightarrow> (string \<times> scored_row list) list" where
  "groupby_position df =
     map (\<lambda>p. (p, filter (\<lambda>r. position r = p) df)) (sort (remdups (map position df)))"

definition prepare_transfer_dataset ::
  "(string \<Rightarrow> nat \<Rightarrow> nat) \<Rightarrow> (string \<Rightarrow> nat \<Rightarrow> real) \<Rightarrow> scored_row list \<Rightarrow> nat \<Rightarrow> transfer_row list" where
  "prepare_transfer_dataset pick noise df num_pairs =
     concat (map (\<lambda>(pos, grp).
         let pp = position_pairs num_pairs pos;
             players = sample_rows (pick pos) grp (min (length grp) (pp * 2))
         in position_transfer_rows pos players pp (noise pos))
       (groupby_position df))"

text \<open>Two midfielders, used to run the synthesizer on a concrete data frame.\<close>

definition example_mid_a :: scored_row where
  "example_mid_a = \<lparr>player_id = 1, name = ''A'', position = ''MID'', price = 8.5,
        form = 6, points_per_game = 5, minutes = 900, goals_scored = Some 4,
        assists = Some 3, clean_sheets = None, ict_index = None, bonus = Some 5,
        team_strength = Some 110, avg_fixture_difficulty = 4, next_gw_points = 5\<rparr>"

definition example_mid_b :: scored_row where
  "example_mid_b = \<lparr>player_id = 2, name = ''B'', position = ''MID'', price = 6,
        form = 2, points_per_game = 3, minutes = 700, goals_scored = Some 1,
        assists = None, clean_sheets = None, ict_index = None, bonus = None,
        team_strength = None, avg_fixture_difficulty = 2, next_gw_points = 3\<rparr>"

section \<open>Training orchestrator: the transfer-training step\<close>

text \<open>
  \<^verbatim>\<open>train_ml_models.py\<close>, lines 205-223. The file system is a map from paths to file
  contents. \<^verbatim>\<open>train_transfer_models\<close> is the parameter \<open>train\<close>: given the file system
  it finds, it returns the exception it raised, if any, and the file system it leaves.
\<close>

type_synonym path = string
type_synonym filesystem = "path \<rightharpoonup> string"

definition copy2 :: "path \<Rightarrow> path \<Rightarrow> filesystem \<Rightarrow> pyerr + filesystem" where
  "copy2 src dst fs =
     (case fs src of None \<Rightarrow> Inl FileNotFoundError | Some content \<Rightarrow> Inr (fs(dst \<mapsto> content)))"

text \<open>
  \<^verbatim>\<open>df.to_csv(main_csv, index=False)\<close> can fail. What the environment does to the write
  is a parameter: no fault, or opening the file fails and the file is left as it was, or
  the write fails after the first \<open>n\<close> characters of the text have reached the file.
\<close>

datatype write_fault = OpenFails pyerr | WriteFails pyerr nat

definition to_csv ::
  "path \<Rightarrow> string \<Rightarrow> write_fault option \<Rightarrow> filesystem \<Rightarrow> pyerr option \<times> filesystem" where
  "to_csv p content fault fs =
     (case fault of
        None \<Rightarrow> (None, fs(p \<mapsto> content))
      | Some (OpenFails e) \<Rightarrow> (Some e, fs)
      | Some (WriteFails e n) \<Rightarrow> (Some e, fs(p \<mapsto> take n content)))"

definition move :: "path \<Rightarrow> path \<Rightarrow> filesystem \<Rightarrow> pyerr + filesystem" where
  "move src dst fs =
     (case fs src of None \<Rightarrow> Inl FileNotFoundError
      | Some content \<Rightarrow> Inr ((fs(dst \<mapsto> content))(src := None)))"

text \<open>\<^verbatim>\<open>backup_csv = main_csv + f'.bak_{unique_id}'\<close>\<close>

definition backup_csv :: "path \<Rightarrow> string \<Rightarrow> path" where
  "backup_csv main_csv unique_id = main_csv @ ''.bak_'' @ unique_id"

text \<open>
  \<open>augmented\<close> is the text of the data frame with the injected \<^verbatim>\<open>next_gw_points\<close>
  column. The copy and the write come before the \<^verbatim>\<open>try\<close> statement: an exception of
  either leaves the function at once. An exception raised inside \<^verbatim>\<open>try\<close> is raised again
  after \<^verbatim>\<open>finally\<close> has run; an exception raised by \<^verbatim>\<open>finally\<close> itself replaces it.
\<close>

definition transfer_training_step ::
  "(filesystem \<Rightarrow> pyerr option \<times> filesystem) \<Rightarrow> path \<Rightarrow> string \<Rightarrow> string
     \<Rightarrow> write_fault option \<Rightarrow> filesystem \<Rightarrow> (pyerr + unit) \<times> filesystem" where
  "transfer_training_step train main_csv unique_id augmented fault fs =
     (case copy2 main_csv (backup_csv main_csv unique_id) fs of
        Inl e \<Rightarrow> (Inl e, fs)
      | Inr fs1 \<Rightarrow>
          (case to_csv main_csv augmented fault fs1 of
             (Some e, fs2) \<Rightarrow> (Inl e, fs2)
           | (None, fs2) \<Rightarrow>
               let (raised, fs3) = train fs2
               in (case move (backup_csv main_csv unique_id) main_csv fs3 of
                     Inl e \<Rightarrow> (Inl e, fs3)
                   | Inr fs4 \<Rightarrow>
                       (case raised of Some e \<Rightarrow> (Inl e, fs4) | None \<Rightarrow> (Inr (), fs4)))))"

section \<open>Team rating\<close>

text \<open>
  \<^verbatim>\<open>app/schemas/fpl.py\<close>: the fields of \<^verbatim>\<open>Player\<close> that the rating reads. \<open>p_status\<close> is
  \<open>None\<close> when the object has no attribute \<^verbatim>\<open>status\<close>.
\<close>

record Player =
  p_id :: int
  p_name :: string
  p_team :: string
  p_position :: string
  p_price :: real
  p_total_points :: int
  p_status :: "string option"

record Team =
  t_players :: "Player list"
  t_total_value :: real
  t_remaining_budget :: real

text \<open>
  The dictionary a rating function returns; a key it does not set is \<open>None\<close>.
\<close>

record rating_result =
  score :: real
  suggestions :: "string list option"
  rating :: "string option"

text \<open>
  How a block of statements ends: control falls through to the next statement with
  the local variables, or the function has returned. A raised exception is \<open>Inl\<close>.
\<close>

datatype ('s, 'r) flow = Fallthrough 's | Returned 'r

definition try_except ::
  "pyerr + ('s, 'r) flow \<Rightarrow> (pyerr \<Rightarrow> pyerr + ('s, 'r) flow) \<Rightarrow> pyerr + ('s, 'r) flow" where
  "try_except body handler = (case body of Inl e \<Rightarrow> handler e | Inr f \<Rightarrow> Inr f)"

definition then_block :: "pyerr + ('s, 'r) flow \<Rightarrow> ('s \<Rightarrow> pyerr + 'r) \<Rightarrow> pyerr + 'r" where
  "then_block stmt rest =
     (case stmt of Inl e \<Rightarrow> Inl e | Inr (Returned r) \<Rightarrow> Inr r | Inr (Fallthrough s) \<Rightarrow> rest s)"

text \<open>\<^verbatim>\<open>app/services/mock_service.py\<close>, \<open>mock_team_rating\<close>.\<close>

definition round1 :: "real \<Rightarrow> real" where
  "round1 x =
     (let y = x * 10; f = \<lfloor>y\<rfloor>; d = y - of_int f
      in of_int (if d < 1 / 2 then f else if 1 / 2 < d then f + 1
                 else if even f then f else f + 1) / 10)"

definition mock_team_rating :: "Team \<Rightarrow> int \<Rightarrow> rating_result" where
  "mock_team_rating team gameweek =
     (let total_points = sum_list (map p_total_points (t_players team));
          avg_points = (if t_players team \<noteq> [] then of_int total_points / of_nat (length (t_players team))
                        else 0);
          sc = min 100 (max 0 (avg_points * 2));
          sg = (if sc < 70 then [''Consider upgrading your lowest-scoring players'',
                                 ''Look for players with better fixtures'']
                else [])
      in \<lparr>score = round1 sc, suggestions = Some sg,
          rating = Some (if sc \<ge> 70 then ''Good'' else ''Needs Improvement'')\<rparr>)"

text \<open>
  \<^verbatim>\<open>app/services/team_rating_service.py\<close>, \<open>rate_team\<close>. The awaited
  \<^verbatim>\<open>get_player_fixture_difficulty(p.id, next_n=1)\<close> is the parameter \<open>fixture_difficulty\<close>:
  it raises, or returns a list of fixture dictionaries.
\<close>

type_synonym fixture_source = "int \<Rightarrow> pyerr + ((string \<times> rawval) list) list"

definition count_positions :: "Player list \<Rightarrow> string \<Rightarrow> int" where
  "count_positions ps = fold (\<lambda>p m. m(p_position p := m (p_position p) + 1)) ps (\<lambda>_. 0)"

definition balance_step :: "bool \<Rightarrow> string \<Rightarrow> int \<times> string list \<Rightarrow> int \<times> string list" where
  "balance_step short msg st = (if short then (fst st - 10, snd st @ [msg]) else st)"

definition injury_step :: "Player \<Rightarrow> int \<times> string list \<Rightarrow> int \<times> string list" where
  "injury_step p st =
     (if (case p_status p of None \<Rightarrow> ''a'' | Some s \<Rightarrow> s) \<notin> {''a'', ''d''}
      then (fst st - 5, snd st @ [''Replace injured/unavailable player: '' @ p_name p])
      else st)"

text \<open>
  The inner \<^verbatim>\<open>try\<close> with its bare \<^verbatim>\<open>except\<close>: a failing call, an empty list and a
  fixture without the key all give 3.0.
\<close>

definition avg_diff_of :: "fixture_source \<Rightarrow> Player \<Rightarrow> rawval" where
  "avg_diff_of fixture_difficulty p =
     (case fixture_difficulty (p_id p) of
        Inl e \<Rightarrow> RFloat 3.0
      | Inr fixtures \<Rightarrow>
          (case fixtures of
             [] \<Rightarrow> RFloat 3.0
           | f # _ \<Rightarrow> (case map_of f ''difficulty'' of None \<Rightarrow> RFloat 3.0 | Some d \<Rightarrow> d)))"

fun count_hard_fixtures :: "fixture_source \<Rightarrow> Player list \<Rightarrow> int \<Rightarrow> pyerr + int" where
  "count_hard_fixtures fixture_difficulty [] hard_fixture_count = Inr hard_fixture_count"
| "count_hard_fixtures fixture_difficulty (p # ps) hard_fixture_count =
     (case py_ge_num (avg_diff_of fixture_difficulty p) 4 of
        Inl e \<Rightarrow> Inl e
      | Inr hard \<Rightarrow>
          count_hard_fixtures fixture_difficulty ps
            (if hard then hard_fixture_count + 1 else hard_fixture_count))"

text \<open>The local variables that the statements after the \<^verbatim>\<open>try\<close> statement read.\<close>

record rate_locals =
  l_players :: "Player list"
  l_score :: int
  l_suggestions :: "string list"
  l_hard_fixture_count :: int

definition balance_checks :: "Player list \<Rightarrow> int \<times> string list" where
  "balance_checks ps =
     (let pos_counts = count_positions ps;
          st0 = (100, []);
          st1 = balance_step (pos_counts ''GK'' < 2) ''Add a backup goalkeeper.'' st0;
          st2 = balance_step (pos_counts ''DEF'' < 4) ''Increase defensive depth.'' st1;
          st3 = balance_step (pos_counts ''MID'' < 4) ''Increase midfield depth.'' st2;
          st4 = balance_step (pos_counts ''FWD'' < 2) ''Increase forward depth.'' st3
      in st4)"

definition hard_fixture_step :: "int \<Rightarrow> int \<times> string list \<Rightarrow> int \<times> string list" where
  "hard_fixture_step hard_fixture_count st =
     (if hard_fixture_count > 6
      then (fst st - 15, snd st @ [''Too many players with difficult fixtures.''])
      else st)"

definition value_step :: "Player list \<Rightarrow> int \<times> string list \<Rightarrow> int \<times> string list" where
  "value_step ps st =
     (if sum_list (map p_price ps) < 90
      then (fst st - 10, snd st @ [''Consider upgrading to higher-value players.''])
      else st)"

definition rating_of :: "int \<times> string list \<Rightarrow> rating_result" where
  "rating_of st =
     \<lparr>score = of_int (max 0 (fst st)), suggestions = Some (snd st),
      rating = Some (if fst st \<ge> 90 then ''Excellent''
                     else if fst st \<ge> 70 then ''Good''
                     else ''Needs Improvement'')\<rparr>"

definition rate_team_try :: "fixture_source \<Rightarrow> Team \<Rightarrow> pyerr + (rate_locals, rating_result) flow" where
  "rate_team_try fixture_difficulty team =
     (let ps = t_players team;
          st4 = balance_checks ps;
          st5 = fold injury_step ps st4
      in case count_hard_fixtures fixture_difficulty ps 0 of
           Inl e \<Rightarrow> Inl e
         | Inr hard_fixture_count \<Rightarrow>
             let st6 = hard_fixture_step hard_fixture_count st5;
                 st7 = value_step ps st6
             in Inr (Returned (rating_of st7)))"

definition rate_team_except :: "Team \<Rightarrow> int \<Rightarrow> pyerr \<Rightarrow> pyerr + (rate_locals, rating_result) flow" where
  "rate_team_except team gameweek e = Inr (Returned (mock_team_rating team gameweek))"

text \<open>The statements of lines 78-96, which follow the \<^verbatim>\<open>try\<close> statement.\<close>

definition coverage_step :: "Player list \<Rightarrow> string \<Rightarrow> int \<times> string list \<Rightarrow> int \<times> string list" where
  "coverage_step ps t st =
     (let count = length (filter (\<lambda>p. p_team p = t) ps)
      in if count > 3
         then (fst st - 5, snd st @ [''Too many players from '' @ t @ '' (>'' @ str_of_nat count @ '').''])
         else st)"

definition rate_team_rest :: "rate_locals \<Rightarrow> pyerr + rating_result" where
  "rate_team_rest l =
     (let st0 = (l_score l, l_suggestions l);
          st1 = (if l_hard_fixture_count l > 4
                 then (fst st0 - 10, snd st0 @ [''Too many players with tough upcoming fixtures.''])
                 else st0);
          st2 = fold (coverage_step (l_players l)) (first_seen (map p_team (l_players l))) st1;
          sc = max 0 (min 100 (fst st2))
      in Inr \<lparr>score = of_int sc,
               suggestions = (if sc < 70 then Some (snd st2) else None),
               rating = None\<rparr>)"

text \<open>
  The function as the statements that make it: the \<^verbatim>\<open>try\<close> statement, then the rest.
  \<open>rate_team_with\<close> takes the statements after the \<^verbatim>\<open>try\<close> statement as a parameter.
\<close>

definition rate_team_with ::
  "(rate_locals \<Rightarrow> pyerr + rating_result) \<Rightarrow> fixture_source \<Rightarrow> Team \<Rightarrow> int \<Rightarrow> pyerr + rating_result" where
  "rate_team_with rest fixture_difficulty team gameweek =
     then_block (try_except (rate_team_try fixture_difficulty team) (rate_team_except team gameweek)) rest"

definition rate_team :: "fixture_source \<Rightarrow> Team \<Rightarrow> int \<Rightarrow> pyerr + rating_result" where
  "rate_team = rate_team_with rate_team_rest"

text \<open>
  The score of the reachable path in closed form: 100, less 10 for each position short
  of its minimum, less 5 for each player whose status is neither \<^verbatim>\<open>a\<close> nor \<^verbatim>\<open>d\<close>, less 15
  when more than six players have a hard fixture, less 10 when the squad costs less
  than 90.
\<close>

definition unavailable :: "Player \<Rightarrow> bool" where
  "unavailable p = (case p_status p of None \<Rightarrow> False | Some s \<Rightarrow> s \<noteq> ''a'' \<and> s \<noteq> ''d'')"

definition position_count :: "Player list \<Rightarrow> string \<Rightarrow> int" where
  "position_count ps k = int (length (filter (\<lambda>p. p_position p = k) ps))"

definition reachable_score :: "Player list \<Rightarrow> int \<Rightarrow> int" where
  "reachable_score ps hard_fixture_count =
     100
     - (if position_count ps ''GK'' < 2 then 10 else 0)
     - (if position_count ps ''DEF'' < 4 then 10 else 0)
     - (if position_count ps ''MID'' < 4 then 10 else 0)
     - (if position_count ps ''FWD'' < 2 then 10 else 0)
     - 5 * int (length (filter unavailable ps))
     - (if hard_fixture_count > 6 then 15 else 0)
     - (if sum_list (map p_price ps) < 90 then 10 else 0)"

text \<open>A squad of one goalkeeper whose next fixture has no difficulty rating.\<close>

definition example_team :: Team where
  "example_team =
     \<lparr>t_players = [\<lparr>p_id = 1, p_name = ''Raya'', p_team = ''Arsenal'', p_position = ''GK'',
                     p_price = 5.5, p_total_points = 40, p_status = None\<rparr>],
      t_total_value = 5.5, t_remaining_budget = 94.5\<rparr>"

definition example_fixtures :: fixture_source where
  "example_fixtures pid = Inr [[(''gameweek'', RInt 3), (''difficulty'', RNone)]]"

definition example_good_fixtures :: fixture_source where
  "example_good_fixtures pid = Inr [[(''gameweek'', RInt 3), (''difficulty'', RInt 2)]]"

section \<open>Ingestion cache\<close>

text \<open>
  \<^verbatim>\<open>app/utils/fpl_data.py\<close>, lines 28-158. Times are seconds on the clock that
  \<^verbatim>\<open>datetime.now()\<close> reads. A payload is the raw value that \<^verbatim>\<open>response.json()\<close> returns.
\<close>

definition CACHE_EXPIRY :: real where
  "CACHE_EXPIRY = 3600"

record FPLDataCache =
  bootstrap_data :: "rawval option"
  bootstrap_timestamp :: "real option"
  fixtures_data :: "rawval option"
  fixtures_timestamp :: "real option"
  player_details_cache :: "int \<rightharpoonup> rawval"
  player_details_timestamp :: "int \<rightharpoonup> real"

definition new_cache :: FPLDataCache where
  "new_cache = \<lparr>bootstrap_data = None, bootstrap_timestamp = None,
                 fixtures_data = None, fixtures_timestamp = None,
                 player_details_cache = Map.empty, player_details_timestamp = Map.empty\<rparr>"

definition is_bootstrap_expired :: "real \<Rightarrow> FPLDataCache \<Rightarrow> bool" where
  "is_bootstrap_expired now c =
     (case bootstrap_timestamp c of None \<Rightarrow> True | Some ts \<Rightarrow> now - ts > CACHE_EXPIRY)"

definition is_fixtures_expired :: "real \<Rightarrow> FPLDataCache \<Rightarrow> bool" where
  "is_fixtures_expired now c =
     (case fixtures_timestamp c of None \<Rightarrow> True | Some ts \<Rightarrow> now - ts > CACHE_EXPIRY)"

definition is_player_details_expired :: "real \<Rightarrow> FPLDataCache \<Rightarrow> int \<Rightarrow> bool" where
  "is_player_details_expired now c pid =
     (case player_details_timestamp c pid of
        None \<Rightarrow> True | Some ts \<Rightarrow> now - ts > CACHE_EXPIRY)"

text \<open>
  A getter takes the time \<open>now\<close> read by the expiry check, the outcome \<open>response\<close> of the
  upstream request should it be made, and the time \<open>now'\<close> read when the payload is
  stored; \<open>pid\<close> is the argument \<^verbatim>\<open>player_id\<close>. It returns its result, the cache it leaves and the number of upstream requests
  it made. A \<^verbatim>\<open>httpx.RequestError\<close> is raised again as a plain \<^verbatim>\<open>Exception\<close>; any other
  exception propagates as it is. The bootstrap and the fixtures getter assert, after
  storing the payload, that it is not \<^verbatim>\<open>None\<close>; the same assertion before the return of
  a cached payload cannot fail, the payload being true.
\<close>

definition wrap_request_error :: "string \<Rightarrow> pyerr \<Rightarrow> pyerr" where
  "wrap_request_error prefix e =
     (case e of RequestError msg \<Rightarrow> Exception (prefix @ msg) | _ \<Rightarrow> e)"

definition get_bootstrap_data ::
  "real \<Rightarrow> pyerr + rawval \<Rightarrow> real \<Rightarrow> FPLDataCache \<Rightarrow> (pyerr + rawval) \<times> FPLDataCache \<times> nat" where
  "get_bootstrap_data now response now' c =
     (case (case bootstrap_data c of None \<Rightarrow> None
            | Some d \<Rightarrow> if py_truthy d \<and> \<not> is_bootstrap_expired now c then Some d else None) of
        Some d \<Rightarrow> (Inr d, c, 0)
      | None \<Rightarrow>
          (case response of
             Inl e \<Rightarrow> (Inl (wrap_request_error ''Failed to fetch FPL bootstrap data: '' e), c, 1)
           | Inr payload \<Rightarrow>
               (if payload = RNone then Inl AssertionError else Inr payload,
                c\<lparr>bootstrap_data := Some payload, bootstrap_timestamp := Some now'\<rparr>, 1)))"

definition get_fixtures_data ::
  "real \<Rightarrow> pyerr + rawval \<Rightarrow> real \<Rightarrow> FPLDataCache \<Rightarrow> (pyerr + rawval) \<times> FPLDataCache \<times> nat" where
  "get_fixtures_data now response now' c =
     (case (case fixtures_data c of None \<Rightarrow> None
            | Some d \<Rightarrow> if py_truthy d \<and> \<not> is_fixtures_expired now c then Some d else None) of
        Some d \<Rightarrow> (Inr d, c, 0)
      | None \<Rightarrow>
          (case response of
             Inl e \<Rightarrow> (Inl (wrap_request_error ''Failed to fetch FPL fixtures data: '' e), c, 1)
           | Inr payload \<Rightarrow>
               (if payload = RNone then Inl AssertionError else Inr payload,
                c\<lparr>fixtures_data := Some payload, fixtures_timestamp := Some now'\<rparr>, 1)))"

definition get_player_detail_data ::
  "int \<Rightarrow> real \<Rightarrow> pyerr + rawval \<Rightarrow> real \<Rightarrow> FPLDataCache
     \<Rightarrow> (pyerr + rawval) \<times> FPLDataCache \<times> nat" where
  "get_player_detail_data pid now response now' c =
     (case (case player_details_cache c pid of None \<Rightarrow> None
            | Some d \<Rightarrow> if \<not> is_player_details_expired now c pid then Some d else None) of
        Some d \<Rightarrow> (Inr d, c, 0)
      | None \<Rightarrow>
          (case response of
             Inl e \<Rightarrow> (Inl (wrap_request_error ''Failed to fetch player detail data: '' e), c, 1)
           | Inr payload \<Rightarrow>
               (Inr payload,
                c\<lparr>player_details_cache := (player_details_cache c)(pid \<mapsto> payload),
                  player_details_timestamp := (player_details_timestamp c)(pid \<mapsto> now')\<rparr>,
                1)))"

section \<open>Training orchestrator: tiered model loading\<close>

text \<open>
  \<^verbatim>\<open>train_ml_models.py\<close>, lines 154-203. The class \<^verbatim>\<open>PointsPredictor\<close> of
  \<^verbatim>\<open>app/models/ml_models.py\<close> is not among the sources; what the orchestrator uses of it is
  a parameter. An object is identified by its model type and its position;
  \<open>pc_load\<close> is what \<^verbatim>\<open>load()\<close> returns for it, \<open>pc_feature_names\<close> its attribute
  \<^verbatim>\<open>feature_names\<close> after \<^verbatim>\<open>load()\<close> was called (the empty list when it is \<^verbatim>\<open>None\<close> or
  empty), \<open>pc_predict\<close> what \<^verbatim>\<open>predict(features)\<close> returns or raises.
\<close>

record predictor =
  pr_model_type :: string
  pr_position :: string

record predictor_class =
  pc_load :: "predictor \<Rightarrow> bool"
  pc_feature_names :: "predictor \<Rightarrow> string list"
  pc_predict :: "predictor \<Rightarrow> (string \<times> real) list \<Rightarrow> pyerr + real"

definition tier_priority :: "string list" where
  "tier_priority = [''stacking'', ''elite'', ''premium'', ''basic'']"

definition positions :: "string list" where
  "positions = [''gk'', ''def'', ''mid'', ''fwd'']"

definition path_join :: "path \<Rightarrow> string \<Rightarrow> path" where
  "path_join dir file = dir @ ''/'' @ file"

definition path_exists :: "filesystem \<Rightarrow> path \<Rightarrow> bool" where
  "path_exists fs p = (fs p \<noteq> None)"

text \<open>The test that guards the construction of a predictor for a tier.\<close>

definition tier_files_exist :: "filesystem \<Rightarrow> path \<Rightarrow> string \<Rightarrow> string \<Rightarrow> bool" where
  "tier_files_exist fs model_dir pos tier =
     (if tier = ''stacking''
      then path_exists fs (path_join model_dir (''points_predictor_'' @ pos @ ''_stacking_stacking.joblib''))
      else path_exists fs (path_join model_dir (''points_predictor_'' @ pos @ ''_'' @ tier @ ''.joblib''))
         \<and> path_exists fs (path_join model_dir (''points_predictor_'' @ pos @ ''_'' @ tier @ ''_scaler.joblib'')))"

text \<open>
  The inner loop over the tiers for one position. \<open>cur\<close> is \<^verbatim>\<open>predictors.get(pos)\<close>; the
  second component lists the tiers on which \<^verbatim>\<open>load()\<close> was called, in order. The
  assignment \<^verbatim>\<open>predictors[pos] = PointsPredictor(...)\<close> comes before the call of
  \<^verbatim>\<open>load()\<close>, and \<^verbatim>\<open>break\<close> leaves the loop when \<^verbatim>\<open>load()\<close> returns true.
\<close>

fun try_tiers ::
  "predictor_class \<Rightarrow> filesystem \<Rightarrow> path \<Rightarrow> string \<Rightarrow> string list \<Rightarrow> predictor option
     \<Rightarrow> predictor option \<times> string list" where
  "try_tiers cls fs model_dir pos [] cur = (cur, [])"
| "try_tiers cls fs model_dir pos (tier # rest) cur =
     (if tier_files_exist fs model_dir pos tier
      then let p = \<lparr>pr_model_type = tier, pr_position = upper pos\<rparr>
           in if pc_load cls p then (Some p, [tier])
              else (let (res, tried) = try_tiers cls fs model_dir pos rest (Some p)
                    in (res, tier # tried))
      else try_tiers cls fs model_dir pos rest cur)"

text \<open>
  The outer loop: the dictionary \<^verbatim>\<open>predictors\<close>, the warnings logged, and for each
  position the tiers on which \<^verbatim>\<open>load()\<close> was called.
\<close>

record loader_state =
  predictors :: "string \<rightharpoonup> predictor"
  warnings :: "string list"
  load_calls :: "(string \<times> string list) list"

definition load_position :: "predictor_class \<Rightarrow> filesystem \<Rightarrow> path \<Rightarrow> string \<Rightarrow> loader_state \<Rightarrow> loader_state" where
  "load_position cls fs model_dir pos st =
     (let (res, tried) = try_tiers cls fs model_dir pos tier_priority (predictors st pos);
          preds = (case res of None \<Rightarrow> predictors st | Some p \<Rightarrow> (predictors st)(pos \<mapsto> p))
      in \<lparr>predictors = preds,
          warnings = (if preds pos = None
                      then warnings st @ [''No points predictor model found for position '' @ upper pos
                                           @ ''. Will fallback to points_per_game.'']
                      else warnings st),
          load_calls = load_calls st @ [(pos, tried)]\<rparr>)"

definition load_predictors :: "predictor_class \<Rightarrow> filesystem \<Rightarrow> path \<Rightarrow> loader_state" where
  "load_predictors cls fs model_dir =
     fold (load_position cls fs model_dir) positions
       \<lparr>predictors = Map.empty, warnings = [], load_calls = []\<rparr>"

text \<open>
  A row of the main dataset: its position and its numeric columns, identifier, name,
  team and position dropped and missing values filled with 0.
\<close>

record main_row =
  mr_position :: string
  mr_columns :: "(string \<times> real) list"

definition row_get0 :: "main_row \<Rightarrow> string \<Rightarrow> real" where
  "row_get0 row k = (case map_of (mr_columns row) k of None \<Rightarrow> 0 | Some v \<Rightarrow> v)"

text \<open>The body of the loop over the rows, with its \<^verbatim>\<open>try\<close> and \<^verbatim>\<open>except Exception\<close>.\<close>

definition predict_row :: "predictor_class \<Rightarrow> (string \<rightharpoonup> predictor) \<Rightarrow> main_row \<Rightarrow> real" where
  "predict_row cls preds row =
     (let pos = lower (mr_position row)
      in case preds pos of
           None \<Rightarrow> row_get0 row ''points_per_game''
         | Some p \<Rightarrow>
             if pc_feature_names cls p \<noteq> []
             then (let features = map (\<lambda>fname. (fname, row_get0 row fname))
                                      (first_seen (pc_feature_names cls p))
                   in case pc_predict cls p features of
                        Inr pred \<Rightarrow> pred
                      | Inl e \<Rightarrow> row_get0 row ''points_per_game'')
             else row_get0 row ''points_per_game'')"

definition pred_points :: "predictor_class \<Rightarrow> (string \<rightharpoonup> predictor) \<Rightarrow> main_row list \<Rightarrow> real list" where
  "pred_points cls preds df = map (predict_row cls preds) df"

text \<open>
  A model directory that holds only a basic artifact for goalkeepers, and a class whose
  \<^verbatim>\<open>load()\<close> always fails.
\<close>

definition example_model_dir :: filesystem where
  "example_model_dir =
     [''models/points_predictor_gk_basic.joblib'' \<mapsto> ''corrupt'',
      ''models/points_predictor_gk_basic_scaler.joblib'' \<mapsto> ''scaler'']"

definition failing_class :: predictor_class where
  "failing_class = \<lparr>pc_load = (\<lambda>p. False), pc_feature_names = (\<lambda>p. []),
                     pc_predict = (\<lambda>p features. Inl (Exception ''model not loaded''))\<rparr>"

section \<open>Conversion to float\<close>

text \<open>
  \<^verbatim>\<open>float(s)\<close> for a string of ASCII characters: surrounding white space is dropped; then
  come an optional sign and either \<^verbatim>\<open>inf\<close>, \<^verbatim>\<open>infinity\<close> or \<^verbatim>\<open>nan\<close> in any case, or a
  decimal number with an optional fraction and an optional exponent, where single
  underscores may separate digits. Any other text is a \<^verbatim>\<open>ValueError\<close>, here \<open>None\<close>.
\<close>

definition is_space :: "char \<Rightarrow> bool" where
  "is_space c = (c \<in> set [CHR '' '', CHR 0x09, CHR 0x0A, CHR 0x0B, CHR 0x0C, CHR 0x0D])"

definition strip :: "string \<Rightarrow> string" where
  "strip s = rev (dropWhile is_space (rev (dropWhile is_space s)))"

definition digit_val :: "char \<Rightarrow> nat option" where
  "digit_val c = map_of (zip ''0123456789'' [0, 1, 2, 3, 4, 5, 6, 7, 8, 9]) c"

definition is_digit :: "char \<Rightarrow> bool" where
  "is_digit c = (digit_val c \<noteq> None)"

text \<open>A group of digits: digits with single underscores between them.\<close>

fun digit_group_tail :: "string \<Rightarrow> bool" where
  "digit_group_tail [] = True"
| "digit_group_tail (c # cs) =
     (if is_digit c then digit_group_tail cs
      else if c = CHR ''_'' then (case cs of [] \<Rightarrow> False | d # ds \<Rightarrow> is_digit d \<and> digit_group_tail ds)
      else False)"

definition digit_group :: "string \<Rightarrow> bool" where
  "digit_group s = (case s of [] \<Rightarrow> False | c # cs \<Rightarrow> is_digit c \<and> digit_group_tail cs)"

definition digits_value :: "string \<Rightarrow> nat" where
  "digits_value s =
     fold (\<lambda>c acc. case digit_val c of None \<Rightarrow> acc | Some d \<Rightarrow> acc * 10 + d) s 0"

definition count_digits :: "string \<Rightarrow> nat" where
  "count_digits s = length (filter is_digit s)"

definition split_sign :: "string \<Rightarrow> bool \<times> string" where
  "split_sign s =
     (case s of
        [] \<Rightarrow> (False, [])
      | c # cs \<Rightarrow> if c = CHR ''-'' then (True, cs) else if c = CHR ''+'' then (False, cs) else (False, s))"

text \<open>Splitting at the first character that satisfies \<open>P\<close>; the character is dropped.\<close>

definition split_first :: "(char \<Rightarrow> bool) \<Rightarrow> string \<Rightarrow> string \<times> string option" where
  "split_first P s =
     (case dropWhile (\<lambda>c. \<not> P c) s of
        [] \<Rightarrow> (s, None)
      | _ # rest \<Rightarrow> (takeWhile (\<lambda>c. \<not> P c) s, Some rest))"

definition parse_exponent :: "string option \<Rightarrow> int option" where
  "parse_exponent e =
     (case e of
        None \<Rightarrow> Some 0
      | Some t \<Rightarrow>
          (let (neg, ds) = split_sign t
           in if digit_group ds
              then Some (if neg then - int (digits_value ds) else int (digits_value ds))
              else None))"

definition scale10 :: "real \<Rightarrow> int \<Rightarrow> real" where
  "scale10 m e = (if 0 \<le> e then m * 10 ^ nat e else m / 10 ^ nat (- e))"

definition parse_decimal :: "string \<Rightarrow> real option" where
  "parse_decimal s =
     (let (mant, expo) = split_first (\<lambda>c. c = CHR ''e'' \<or> c = CHR ''E'') s;
          (ip, fp) = split_first (\<lambda>c. c = CHR ''.'') mant;
          fd = (case fp of None \<Rightarrow> [] | Some f \<Rightarrow> f)
      in if (ip = [] \<or> digit_group ip) \<and> (fd = [] \<or> digit_group fd) \<and> \<not> (ip = [] \<and> fd = [])
         then (case parse_exponent expo of
                 None \<Rightarrow> None
               | Some e \<Rightarrow>
                   Some (scale10 (of_nat (digits_value (ip @ fd))) (e - int (count_digits fd))))
         else None)"

text \<open>
  The range of the floats: a number whose magnitude reaches \<open>2^1024 - 2^970\<close> rounds to
  an infinity when it is read from a string, and is an \<^verbatim>\<open>OverflowError\<close> when it is an
  integer passed to \<^verbatim>\<open>float\<close>.
\<close>

definition float_overflow_bound :: real where
  "float_overflow_bound = 2 ^ 1024 - 2 ^ 970"

definition to_double :: "real \<Rightarrow> pyfloat" where
  "to_double x =
     (if float_overflow_bound \<le> x then PosInf
      else if x \<le> - float_overflow_bound then NegInf
      else Fin x)"

definition parse_float :: "string \<Rightarrow> pyfloat option" where
  "parse_float s =
     (let (neg, body) = split_sign (strip s)
      in if lower body = ''inf'' \<or> lower body = ''infinity''
         then Some (if neg then NegInf else PosInf)
         else if lower body = ''nan'' then Some NaN
         else (case parse_decimal body of
                 None \<Rightarrow> None
               | Some x \<Rightarrow> Some (to_double (if neg then - x else x))))"

text \<open>\<^verbatim>\<open>float(v)\<close> for a raw value.\<close>

definition py_float :: "rawval \<Rightarrow> pyerr + pyfloat" where
  "py_float v =
     (case v of
        RNone \<Rightarrow> Inl TypeError
      | RInt i \<Rightarrow> if float_overflow_bound \<le> \<bar>of_int i\<bar> then Inl OverflowError
                  else Inr (Fin (of_int i))
      | RFloat x \<Rightarrow> Inr (Fin x)
      | RStr s \<Rightarrow> (case parse_float s of None \<Rightarrow> Inl ValueError | Some f \<Rightarrow> Inr f)
      | RList l \<Rightarrow> Inl TypeError
      | RDict d \<Rightarrow> Inl TypeError)"

text \<open>\<^verbatim>\<open>s.replace(',', '.')\<close>\<close>

definition replace_comma :: "string \<Rightarrow> string" where
  "replace_comma s = map (\<lambda>c. if c = CHR '','' then CHR ''.'' else c) s"

section \<open>Feature extraction\<close>

text \<open>
  A raw player record is a dictionary from keys to raw values. \<open>dict_get\<close> is
  \<^verbatim>\<open>player_data.get(key, default)\<close>, \<open>dict_item\<close> is \<^verbatim>\<open>player_data[key]\<close>.
\<close>

type_synonym raw_record = "string \<rightharpoonup> rawval"

definition dict_get :: "raw_record \<Rightarrow> string \<Rightarrow> rawval \<Rightarrow> rawval" where
  "dict_get d k dflt = (case d k of None \<Rightarrow> dflt | Some v \<Rightarrow> v)"

definition dict_item :: "raw_record \<Rightarrow> string \<Rightarrow> pyerr + rawval" where
  "dict_item d k = (case d k of None \<Rightarrow> Inl KeyError | Some v \<Rightarrow> Inr v)"

definition bind_err :: "pyerr + 'a \<Rightarrow> ('a \<Rightarrow> pyerr + 'b) \<Rightarrow> pyerr + 'b" where
  "bind_err m f = (case m of Inl e \<Rightarrow> Inl e | Inr x \<Rightarrow> f x)"

text \<open>
  Arithmetic on raw values: \<^verbatim>\<open>a // b\<close>, \<^verbatim>\<open>a / b\<close>, \<^verbatim>\<open>a + b\<close> and \<^verbatim>\<open>max(a, b)\<close>, each a
  \<^verbatim>\<open>TypeError\<close> unless both operands are numbers.
\<close>

definition py_floordiv :: "rawval \<Rightarrow> rawval \<Rightarrow> pyerr + rawval" where
  "py_floordiv a b =
     (case (a, b) of
        (RInt x, RInt y) \<Rightarrow> if y = 0 then Inl ZeroDivisionError else Inr (RInt (x div y))
      | _ \<Rightarrow>
          (case (num_of a, num_of b) of
             (Some x, Some y) \<Rightarrow>
               if y = 0 then Inl ZeroDivisionError else Inr (RFloat (of_int \<lfloor>x / y\<rfloor>))
           | _ \<Rightarrow> Inl TypeError))"

definition py_truediv :: "rawval \<Rightarrow> rawval \<Rightarrow> pyerr + real" where
  "py_truediv a b =
     (case (num_of a, num_of b) of
        (Some x, Some y) \<Rightarrow> if y = 0 then Inl ZeroDivisionError else Inr (x / y)
      | _ \<Rightarrow> Inl TypeError)"

definition py_add :: "rawval \<Rightarrow> rawval \<Rightarrow> pyerr + rawval" where
  "py_add a b =
     (case (a, b) of
        (RInt x, RInt y) \<Rightarrow> Inr (RInt (x + y))
      | _ \<Rightarrow>
          (case (num_of a, num_of b) of
             (Some x, Some y) \<Rightarrow> Inr (RFloat (x + y))
           | _ \<Rightarrow> Inl TypeError))"

definition py_max :: "rawval \<Rightarrow> rawval \<Rightarrow> pyerr + rawval" where
  "py_max a b =
     (case (num_of a, num_of b) of
        (Some x, Some y) \<Rightarrow> Inr (if y > x then b else a)
      | _ \<Rightarrow> Inl TypeError)"

text \<open>\<^verbatim>\<open>x / max(1, games_played) if games_played > 0 else 0\<close>\<close>

definition rate_per_game :: "rawval \<Rightarrow> rawval \<Rightarrow> pyerr + rawval" where
  "rate_per_game x games_played =
     bind_err (py_gt_num games_played 0) (\<lambda>played.
       if played
       then bind_err (py_max (RInt 1) games_played) (\<lambda>m.
            bind_err (py_truediv x m) (\<lambda>q. Inr (RFloat q)))
       else Inr (RInt 0))"

text \<open>\<^verbatim>\<open>(total_points / max(1, minutes)) * 90 if minutes > 0 else 0\<close>\<close>

definition rate_per_90 :: "rawval \<Rightarrow> rawval \<Rightarrow> pyerr + rawval" where
  "rate_per_90 total_points mins =
     bind_err (py_gt_num mins 0) (\<lambda>played.
       if played
       then bind_err (py_max (RInt 1) mins) (\<lambda>m.
            bind_err (py_truediv total_points m) (\<lambda>q. Inr (RFloat (q * 90))))
       else Inr (RInt 0))"

subsection \<open>Inference: \<^verbatim>\<open>app/utils/feature_standardizer.py\<close>\<close>


text \<open>
  Lines 55-62: the form, with the \<^verbatim>\<open>ValueError\<close> of a string that does not parse caught.
\<close>

definition form_of :: "rawval \<Rightarrow> pyerr + pyfloat" where
  "form_of form_raw =
     (case form_raw of
        RStr s \<Rightarrow> Inr (if s \<noteq> [] then (case parse_float s of None \<Rightarrow> Fin 0 | Some f \<Rightarrow> f) else Fin 0)
      | RNone \<Rightarrow> Inr (Fin 0)
      | _ \<Rightarrow> py_float form_raw)"

text \<open>Lines 68-73: the price.\<close>

definition price_of :: "raw_record \<Rightarrow> pyerr + rawval" where
  "price_of player_data =
     (let p0 = dict_get player_data ''price'' (RInt 0);
          p1 = (if p0 = RNone then RInt 0 else p0)
      in case player_data ''now_cost'' of
           None \<Rightarrow> Inr p1
         | Some now_cost \<Rightarrow> bind_err (py_truediv now_cost (RFloat 10.0)) (\<lambda>q. Inr (RFloat q)))"

text \<open>
  Lines 76-83: the ownership percentage, with the \<^verbatim>\<open>ValueError\<close> of a string that does
  not parse caught.
\<close>

definition ownership_of :: "rawval \<Rightarrow> pyerr + pyfloat" where
  "ownership_of ownership_raw =
     (case ownership_raw of
        RStr s \<Rightarrow> Inr (case parse_float (replace_comma s) of None \<Rightarrow> Fin 0 | Some f \<Rightarrow> f)
      | RNone \<Rightarrow> Inr (Fin 0)
      | _ \<Rightarrow> py_float ownership_raw)"

text \<open>The values computed in lines 41-95, in the order in which the code computes them.\<close>

record derived =
  d_games_played :: rawval
  d_ppg :: rawval
  d_points_per_90 :: rawval
  d_form :: pyfloat
  d_price :: rawval
  d_ownership_percentage :: pyfloat
  d_xG :: rawval
  d_xA :: rawval

definition derive :: "raw_record \<Rightarrow> pyerr + derived" where
  "derive player_data =
     (let total_points = dict_get player_data ''total_points'' (RInt 0);
          mins = dict_get player_data ''minutes'' (RInt 0)
      in bind_err (py_floordiv mins (RInt 60)) (\<lambda>q.
         bind_err (py_max (RInt 1) q) (\<lambda>games_played.
         bind_err (rate_per_game total_points games_played) (\<lambda>ppg.
         bind_err (rate_per_90 total_points mins) (\<lambda>points_per_90.
         bind_err (form_of (dict_get player_data ''form'' (RInt 0))) (\<lambda>frm.
         bind_err (price_of player_data) (\<lambda>prc.
         bind_err (ownership_of (dict_get player_data ''selected_by_percent'' (RStr ''0.0''))) (\<lambda>own.
         bind_err (rate_per_game (dict_get player_data ''goals_scored'' (RInt 0)) games_played) (\<lambda>xG.
         bind_err (rate_per_game (dict_get player_data ''assists'' (RInt 0)) games_played) (\<lambda>xA.
           Inr \<lparr>d_games_played = games_played, d_ppg = ppg, d_points_per_90 = points_per_90,
                d_form = frm, d_price = prc, d_ownership_percentage = own,
                d_xG = xG, d_xA = xA\<rparr>))))))))))"

text \<open>
  A dictionary literal whose values may raise: the items are evaluated in order, and
  the first exception is the result.
\<close>

fun collect :: "('k \<times> (pyerr + 'v)) list \<Rightarrow> pyerr + ('k \<times> 'v) list" where
  "collect [] = Inr []"
| "collect ((k, v) # rest) =
     (case v of
        Inl e \<Rightarrow> Inl e
      | Inr x \<Rightarrow> (case collect rest of Inl e \<Rightarrow> Inl e | Inr ys \<Rightarrow> Inr ((k, x) # ys)))"

definition float_get0 :: "raw_record \<Rightarrow> string \<Rightarrow> string \<times> (pyerr + pyfloat)" where
  "float_get0 player_data k = (k, py_float (dict_get player_data k (RInt 0)))"

definition feature_items :: "raw_record \<Rightarrow> derived \<Rightarrow> (string \<times> (pyerr + pyfloat)) list" where
  "feature_items player_data d =
     [(''price'', py_float (d_price d)),
      (''form'', Inr (d_form d)),
      (''recent_form'', Inr (d_form d)),
      (''points_per_game'', py_float (d_ppg d)),
      (''points_per_90'', py_float (d_points_per_90 d)),
      float_get0 player_data ''minutes'',
      float_get0 player_data ''goals_scored'',
      float_get0 player_data ''assists'',
      float_get0 player_data ''clean_sheets'',
      float_get0 player_data ''goals_conceded'',
      float_get0 player_data ''own_goals'',
      float_get0 player_data ''penalties_saved'',
      float_get0 player_data ''penalties_missed'',
      float_get0 player_data ''yellow_cards'',
      float_get0 player_data ''red_cards'',
      float_get0 player_data ''saves'',
      float_get0 player_data ''bonus'',
      float_get0 player_data ''bps'',
      float_get0 player_data ''influence'',
      float_get0 player_data ''creativity'',
      float_get0 player_data ''threat'',
      float_get0 player_data ''ict_index'',
      (''xG'', py_float (d_xG d)),
      (''xA'', py_float (d_xA d)),
      (''ownership_percentage'', Inr (d_ownership_percentage d)),
      (''avg_fixture_difficulty'',
         py_float (dict_get player_data ''avg_fixture_difficulty'' (RFloat 3.0))),
      (''team_strength'', py_float (dict_get player_data ''team_strength'' (RFloat 100.0))),
      float_get0 player_data ''team_strength_attack_home'',
      float_get0 player_data ''team_strength_attack_away'',
      float_get0 player_data ''team_strength_defence_home'',
      float_get0 player_data ''team_strength_defence_away'']"

definition convert_player_to_features :: "raw_record \<Rightarrow> pyerr + (string \<times> pyfloat) list" where
  "convert_player_to_features player_data =
     bind_err (derive player_data) (\<lambda>d. collect (feature_items player_data d))"




text \<open>
  Assignment to a key of a dictionary kept as a list of items: an existing key keeps
  its place, a new key goes to the end.
\<close>

fun dict_set :: "('k \<times> 'v) list \<Rightarrow> 'k \<Rightarrow> 'v \<Rightarrow> ('k \<times> 'v) list" where
  "dict_set [] k v = [(k, v)]"
| "dict_set ((k', v') # rest) k v =
     (if k' = k then (k, v) # rest else (k', v') # dict_set rest k v)"








text \<open>
  \<open>validate_features\<close>, lines 221-247. A value of the dictionary is a raw value or a
  float. The handler catches \<^verbatim>\<open>ValueError\<close> and \<^verbatim>\<open>TypeError\<close>; any other exception leaves
  the function.
\<close>

datatype featval = Raw rawval | Flt pyfloat






subsection \<open>Training: \<^verbatim>\<open>app/data_processing/training_data.py\<close>\<close>

text \<open>
  Iterating over a raw value: the items of a list, the characters of a string, the keys
  of a dictionary; anything else is not iterable.
\<close>

definition py_iter :: "rawval \<Rightarrow> pyerr + rawval list" where
  "py_iter v =
     (case v of
        RList l \<Rightarrow> Inr l
      | RStr s \<Rightarrow> Inr (map (\<lambda>c. RStr [c]) s)
      | RDict d \<Rightarrow> Inr (map (\<lambda>kv. RStr (fst kv)) d)
      | _ \<Rightarrow> Inl TypeError)"

text \<open>\<^verbatim>\<open>game.get(key, default)\<close>: only a dictionary has the method.\<close>

definition game_get :: "rawval \<Rightarrow> string \<Rightarrow> rawval \<Rightarrow> pyerr + rawval" where
  "game_get game k dflt =
     (case game of
        RDict d \<Rightarrow> Inr (case map_of d k of None \<Rightarrow> dflt | Some v \<Rightarrow> v)
      | _ \<Rightarrow> Inl AttributeError)"

text \<open>\<^verbatim>\<open>len([game for game in history if game.get("minutes", 0) > 0])\<close>\<close>

fun count_played :: "rawval list \<Rightarrow> pyerr + nat" where
  "count_played [] = Inr 0"
| "count_played (game # rest) =
     bind_err (game_get game ''minutes'' (RInt 0)) (\<lambda>m.
     bind_err (py_gt_num m 0) (\<lambda>played.
     bind_err (count_played rest) (\<lambda>n. Inr (if played then Suc n else n))))"

text \<open>\<^verbatim>\<open>sum(game.get("total_points", 0) for game in recent_history)\<close>\<close>

fun sum_points :: "rawval list \<Rightarrow> rawval \<Rightarrow> pyerr + rawval" where
  "sum_points [] acc = Inr acc"
| "sum_points (game # rest) acc =
     bind_err (game_get game ''total_points'' (RInt 0)) (\<lambda>v.
     bind_err (py_add acc v) (\<lambda>acc'. sum_points rest acc'))"

definition recent_form_of :: "rawval list \<Rightarrow> pyerr + rawval" where
  "recent_form_of history =
     (let recent_history = (if length history \<ge> 3 then drop (length history - 3) history
                            else history)
      in bind_err (sum_points recent_history (RInt 0)) (\<lambda>recent_points.
           if recent_history \<noteq> []
           then bind_err (py_truediv recent_points (RInt (int (length recent_history))))
                  (\<lambda>q. Inr (RFloat q))
           else Inr (RFloat 0.0)))"

text \<open>\<^verbatim>\<open>float(raw_form) if raw_form and raw_form != "" else 0.0\<close>\<close>

definition training_form_of :: "rawval \<Rightarrow> pyerr + pyfloat" where
  "training_form_of raw_form =
     (if py_truthy raw_form \<and> raw_form \<noteq> RStr '''' then py_float raw_form else Inr (Fin 0))"

text \<open>
  Line 118, \<^verbatim>\<open>float(player_data.get("selected_by_percent", "0.0").replace(',', '.'))\<close>:
  only a string has the method \<^verbatim>\<open>replace\<close>, and nothing catches the \<^verbatim>\<open>ValueError\<close> of a
  string that does not parse.
\<close>

definition training_ownership_of :: "rawval \<Rightarrow> pyerr + pyfloat" where
  "training_ownership_of v =
     (case v of
        RStr s \<Rightarrow> (case parse_float (replace_comma s) of None \<Rightarrow> Inl ValueError | Some f \<Rightarrow> Inr f)
      | _ \<Rightarrow> Inl AttributeError)"

text \<open>
  \<open>get_position_name\<close>: a dictionary lookup, so a list or a dictionary as key is a
  \<^verbatim>\<open>TypeError\<close>, and a float equal to an integer key finds that key.
\<close>

definition get_position_name :: "rawval \<Rightarrow> pyerr + string" where
  "get_position_name position_id =
     (case position_id of
        RList l \<Rightarrow> Inl TypeError
      | RDict d \<Rightarrow> Inl TypeError
      | _ \<Rightarrow> Inr (if num_of position_id = Some 1 then ''GK''
                  else if num_of position_id = Some 2 then ''DEF''
                  else if num_of position_id = Some 3 then ''MID''
                  else if num_of position_id = Some 4 then ''FWD''
                  else ''Unknown''))"

definition raw_get :: "raw_record \<Rightarrow> string \<Rightarrow> rawval \<Rightarrow> string \<times> (pyerr + featval)" where
  "raw_get player_data k dflt = (k, Inr (Raw (dict_get player_data k dflt)))"

definition float_get :: "raw_record \<Rightarrow> string \<Rightarrow> string \<times> (pyerr + featval)" where
  "float_get player_data k =
     (k, bind_err (py_float (dict_get player_data k (RInt 0))) (\<lambda>f. Inr (Flt f)))"

text \<open>
  \<open>process_player_features\<close>, lines 75-162. \<open>py_str\<close> is the text that an f-string
  prints for a raw value.
\<close>

record training_derived =
  td_games_played :: nat
  td_ppg :: rawval
  td_points_per_90 :: rawval
  td_form :: pyfloat
  td_recent_form :: rawval
  td_xG :: rawval
  td_xA :: rawval
  td_selected_by_percent :: pyfloat
  td_relative_team_strength :: rawval

definition training_derive :: "raw_record \<Rightarrow> pyerr + training_derived" where
  "training_derive player_data =
     bind_err (dict_item player_data ''minutes'') (\<lambda>mins.
     bind_err (dict_item player_data ''total_points'') (\<lambda>total_points.
     bind_err (py_iter (dict_get player_data ''history'' (RList []))) (\<lambda>history.
     bind_err (count_played history) (\<lambda>games_played.
     bind_err (rate_per_game total_points (RInt (int games_played))) (\<lambda>ppg.
     bind_err (rate_per_90 total_points mins) (\<lambda>points_per_90.
     bind_err (training_form_of (dict_get player_data ''form'' (RStr ''0.0''))) (\<lambda>frm.
     bind_err (recent_form_of history) (\<lambda>recent_form.
     bind_err (rate_per_game (dict_get player_data ''goals_scored'' (RInt 0))
                 (RInt (int games_played))) (\<lambda>xG_approx.
     bind_err (rate_per_game (dict_get player_data ''assists'' (RInt 0))
                 (RInt (int games_played))) (\<lambda>xA_approx.
     bind_err (training_ownership_of
                 (dict_get player_data ''selected_by_percent'' (RStr ''0.0''))) (\<lambda>selected_by_percent.
     bind_err (py_truediv (dict_get player_data ''team_strength'' (RInt 1000)) (RInt 1000)) (\<lambda>rel.
       Inr \<lparr>td_games_played = games_played, td_ppg = ppg, td_points_per_90 = points_per_90,
            td_form = frm, td_recent_form = recent_form, td_xG = xG_approx, td_xA = xA_approx,
            td_selected_by_percent = selected_by_percent,
            td_relative_team_strength = RFloat (rel * 100)\<rparr>))))))))))))"

definition training_items ::
  "(rawval \<Rightarrow> string) \<Rightarrow> raw_record \<Rightarrow> training_derived \<Rightarrow> (string \<times> (pyerr + featval)) list" where
  "training_items py_str player_data d =
     [(''player_id'', bind_err (dict_item player_data ''id'') (\<lambda>v. Inr (Raw v))),
      (''name'', Inr (Raw (RStr (py_str (dict_get player_data ''first_name'' (RStr ''''))
                                 @ '' '' @ py_str (dict_get player_data ''second_name'' (RStr '''')))))),
      (''team'', Inr (Raw (dict_get player_data ''team_name'' (RStr ''Unknown'')))),
      (''position'', bind_err (get_position_name (dict_get player_data ''element_type'' (RInt 0)))
                       (\<lambda>s. Inr (Raw (RStr s)))),
      (''price'', bind_err (py_truediv (dict_get player_data ''now_cost'' (RInt 0)) (RFloat 10.0))
                    (\<lambda>q. Inr (Raw (RFloat q)))),
      (''form'', Inr (Flt (td_form d))),
      (''recent_form'', Inr (Raw (td_recent_form d))),
      (''points_per_game'', Inr (Raw (td_ppg d))),
      (''points_per_90'', Inr (Raw (td_points_per_90 d))),
      raw_get player_data ''minutes'' (RInt 0),
      raw_get player_data ''goals_scored'' (RInt 0),
      raw_get player_data ''assists'' (RInt 0),
      raw_get player_data ''clean_sheets'' (RInt 0),
      raw_get player_data ''goals_conceded'' (RInt 0),
      raw_get player_data ''own_goals'' (RInt 0),
      raw_get player_data ''penalties_saved'' (RInt 0),
      raw_get player_data ''penalties_missed'' (RInt 0),
      raw_get player_data ''yellow_cards'' (RInt 0),
      raw_get player_data ''red_cards'' (RInt 0),
      raw_get player_data ''saves'' (RInt 0),
      raw_get player_data ''bonus'' (RInt 0),
      raw_get player_data ''bps'' (RInt 0),
      float_get player_data ''influence'',
      float_get player_data ''creativity'',
      float_get player_data ''threat'',
      float_get player_data ''ict_index'',
      (''xG'', Inr (Raw (td_xG d))),
      (''xA'', Inr (Raw (td_xA d))),
      (''ownership_percentage'', Inr (Flt (td_selected_by_percent d))),
      raw_get player_data ''avg_fixture_difficulty'' (RFloat 3.0),
      (''team_strength'', Inr (Raw (td_relative_team_strength d))),
      raw_get player_data ''team_strength_attack_home'' (RInt 0),
      raw_get player_data ''team_strength_attack_away'' (RInt 0),
      raw_get player_data ''team_strength_defence_home'' (RInt 0),
      raw_get player_data ''team_strength_defence_away'' (RInt 0)]"

definition process_player_features ::
  "(rawval \<Rightarrow> string) \<Rightarrow> raw_record \<Rightarrow> pyerr + (string \<times> featval) list" where
  "process_player_features py_str player_data =
     bind_err (training_derive player_data) (\<lambda>d. collect (training_items py_str player_data d))"

section \<open>Formulas of the specification and example inputs\<close>




text \<open>A record whose ownership text is not a number.\<close>

definition example_bad_ownership :: raw_record where
  "example_bad_ownership =
     [''id'' \<mapsto> RInt 17, ''minutes'' \<mapsto> RInt 90, ''total_points'' \<mapsto> RInt 6,
      ''selected_by_percent'' \<mapsto> RStr ''N/A'']"

text \<open>
  The formulas of the specification: at inference time \<open>games_played\<close> is the floor of
  \<open>minutes / 60\<close>, and \<open>points_per_game\<close> is \<open>total_points / max(1, games_played)\<close>, or 0
  when \<open>games_played\<close> is 0.
\<close>

definition spec_games_played_inference :: "int \<Rightarrow> int" where
  "spec_games_played_inference m = m div 60"

definition spec_points_per_game :: "real \<Rightarrow> real \<Rightarrow> real" where
  "spec_points_per_game total_points games_played =
     (if games_played = 0 then 0 else total_points / max 1 games_played)"

text \<open>A substitute who played 30 minutes of one match and scored 1 point.\<close>

definition example_substitute :: raw_record where
  "example_substitute = [''total_points'' \<mapsto> RInt 1, ''minutes'' \<mapsto> RInt 30]"

text \<open>A history entry that counts as a game played: a dictionary whose minutes exceed 0.\<close>

definition played_game :: "rawval \<Rightarrow> bool" where
  "played_game game =
     (case game of
        RDict d \<Rightarrow> (case num_of (case map_of d ''minutes'' of None \<Rightarrow> RInt 0 | Some v \<Rightarrow> v) of
                     None \<Rightarrow> False | Some m \<Rightarrow> 0 < m)
      | _ \<Rightarrow> False)"

text \<open>A player with three history entries, two of them with minutes.\<close>

definition example_player :: raw_record where
  "example_player =
     [''id'' \<mapsto> RInt 17, ''minutes'' \<mapsto> RInt 150, ''total_points'' \<mapsto> RInt 9,
      ''history'' \<mapsto> RList [RDict [(''minutes'', RInt 90), (''total_points'', RInt 7)],
                             RDict [(''minutes'', RInt 0), (''total_points'', RInt 0)],
                             RDict [(''minutes'', RInt 60), (''total_points'', RInt 2)]]]"




section \<open>Theorems\<close>

subsection \<open>Prediction and captain targets\<close>

lemma next_gw_points_prediction_row:
  "next_gw_points (prediction_row z (i, r)) = next_gw_points_of r"
  by (simp add: prediction_row_def Let_def player_row.defs scored_row.defs captain_row.defs)

lemma captain_points_prediction_row:
  "captain_points (prediction_row z (i, r)) = captain_points_of (next_gw_points_of r) (z i)"
  by (simp add: prediction_row_def Let_def player_row.defs scored_row.defs captain_row.defs)

lemma prepare_prediction_dataset_nth:
  assumes "i < length df"
  shows "prepare_prediction_dataset z df ! i = prediction_row z (i, df ! i)"
  using assms by (simp add: prepare_prediction_dataset_def nth_enumerate_eq)

text \<open>
  C4. Every input row yields one output row. Its prediction target is
  \<open>points_per_game + (form - points_per_game) * 0.2 - (avg_fixture_difficulty - 2.5) * 0.15\<close>
  clipped below at 0; its captain target is twice that target plus the row's standard
  normal draw scaled by 0.3 times the target, clipped below at 0; both are non-negative
  whatever the form, the fixture difficulty and the points per game are.
\<close>

theorem prediction_targets_clipped:
  "length (prepare_prediction_dataset z df) = length df \<and>
   (\<forall>i < length df.
      next_gw_points (prepare_prediction_dataset z df ! i) =
        max 0 (points_per_game (df ! i)
                 + (form (df ! i) - points_per_game (df ! i)) * 0.2
                 - (avg_fixture_difficulty (df ! i) - 2.5) * 0.15) \<and>
      captain_points (prepare_prediction_dataset z df ! i) =
        max 0 (2 * next_gw_points (prepare_prediction_dataset z df ! i)
                 + z i * (0.3 * next_gw_points (prepare_prediction_dataset z df ! i))) \<and>
      0 \<le> next_gw_points (prepare_prediction_dataset z df ! i) \<and>
      0 \<le> captain_points (prepare_prediction_dataset z df ! i))"
proof (intro conjI allI impI)
  show "length (prepare_prediction_dataset z df) = length df"
    by (simp add: prepare_prediction_dataset_def)
next
  fix i assume i: "i < length df"
  have nth: "prepare_prediction_dataset z df ! i = prediction_row z (i, df ! i)"
    using i by (rule prepare_prediction_dataset_nth)
  show "next_gw_points (prepare_prediction_dataset z df ! i) =
        max 0 (points_per_game (df ! i)
                 + (form (df ! i) - points_per_game (df ! i)) * 0.2
                 - (avg_fixture_difficulty (df ! i) - 2.5) * 0.15)"
    by (simp add: nth next_gw_points_prediction_row next_gw_points_of_def
        form_factor_def fixture_factor_def Let_def)
  show "captain_points (prepare_prediction_dataset z df ! i) =
        max 0 (2 * next_gw_points (prepare_prediction_dataset z df ! i)
                 + z i * (0.3 * next_gw_points (prepare_prediction_dataset z df ! i)))"
    by (simp add: nth next_gw_points_prediction_row captain_points_prediction_row
        captain_points_of_def Let_def mult.commute)
  show "0 \<le> next_gw_points (prepare_prediction_dataset z df ! i)"
    by (simp add: nth next_gw_points_prediction_row next_gw_points_of_def Let_def)
  show "0 \<le> captain_points (prepare_prediction_dataset z df ! i)"
    by (simp add: nth captain_points_prediction_row captain_points_of_def Let_def)
qed

theorem prediction_targets_clipped_witness:
  "(0::nat) < length [\<lparr>player_id = 7, name = ''Saka'', position = ''MID'', price = 8.5,
        form = 6, points_per_game = 5, minutes = 900, goals_scored = Some 4,
        assists = Some 3, clean_sheets = None, ict_index = None, bonus = Some 5,
        team_strength = Some 110, avg_fixture_difficulty = 4\<rparr>] \<and>
   next_gw_points (prepare_prediction_dataset (\<lambda>i. - 10)
     [\<lparr>player_id = 7, name = ''Saka'', position = ''MID'', price = 8.5,
        form = 6, points_per_game = 5, minutes = 900, goals_scored = Some 4,
        assists = Some 3, clean_sheets = None, ict_index = None, bonus = Some 5,
        team_strength = Some 110, avg_fixture_difficulty = 4\<rparr>] ! 0) = 4.975 \<and>
   captain_points (prepare_prediction_dataset (\<lambda>i. - 10)
     [\<lparr>player_id = 7, name = ''Saka'', position = ''MID'', price = 8.5,
        form = 6, points_per_game = 5, minutes = 900, goals_scored = Some 4,
        assists = Some 3, clean_sheets = None, ict_index = None, bonus = Some 5,
        team_strength = Some 110, avg_fixture_difficulty = 4\<rparr>] ! 0) = 0"
  using prediction_targets_clipped [of "\<lambda>i. - 10"
     "[\<lparr>player_id = 7, name = ''Saka'', position = ''MID'', price = 8.5,
        form = 6, points_per_game = 5, minutes = 900, goals_scored = Some 4,
        assists = Some 3, clean_sheets = None, ict_index = None, bonus = Some 5,
        team_strength = Some 110, avg_fixture_difficulty = 4\<rparr>]"]
  by simp

subsection \<open>Transfer pairs\<close>

lemma sample_rows_subset:
  assumes "r \<in> set (sample_rows pick grp n)" and "n \<le> length grp"
  shows "r \<in> set grp"
proof -
  from assms(1) obtain k where k: "k < n" and r: "r = grp ! (pick k mod length grp)"
    by (auto simp: sample_rows_def)
  from k assms(2) have "0 < length grp" by linarith
  then have "pick k mod length grp < length grp" by (rule mod_less_divisor)
  with r show ?thesis by simp
qed

lemma groupby_position_member:
  assumes "(pos, grp) \<in> set (groupby_position df)" and "r \<in> set grp"
  shows "r \<in> set df \<and> position r = pos"
  using assms by (auto simp: groupby_position_def)

lemma position_transfer_rows_member:
  assumes "t \<in> set (position_transfer_rows pos players pp noise)"
  shows "\<exists>i. i + 1 < length players \<and> player_id (players ! i) \<noteq> player_id (players ! (i + 1)) \<and>
             t = transfer_data pos (players ! i) (players ! (i + 1)) (noise i)"
proof -
  from assms obtain i where i: "i < nat (min (int (length players) - 1) (int pp))"
      and t: "t \<in> set (pair_at pos players noise i)"
    by (auto simp: position_transfer_rows_def)
  from i have "i + 1 < length players" by simp
  moreover from t have "player_id (players ! i) \<noteq> player_id (players ! (i + 1))"
      and "t = transfer_data pos (players ! i) (players ! (i + 1)) (noise i)"
    by (auto simp: pair_at_def Let_def split: if_splits)
  ultimately show ?thesis by blast
qed

lemma groupby_position_example: "groupby_position [example_mid_a, example_mid_b] = [(''MID'', [example_mid_a, example_mid_b])]"
  by (simp add: groupby_position_def example_mid_a_def example_mid_b_def)

lemma position_pairs_example: "position_pairs 10 ''MID'' = 3"
  by (simp add: position_pairs_def position_weights_def)

lemma sample_rows_example: "sample_rows (\<lambda>k. k) [example_mid_a, example_mid_b] (Suc (Suc 0)) = [example_mid_a, example_mid_b]"
  by (simp add: sample_rows_def upt_conv_Cons)

lemma example_ids_differ: "player_id example_mid_a \<noteq> player_id example_mid_b"
  by (simp add: example_mid_a_def example_mid_b_def)

lemma prepare_transfer_dataset_example: "prepare_transfer_dataset (\<lambda>p k. k) (\<lambda>p k. 0) [example_mid_a, example_mid_b] 10
   = [transfer_data ''MID'' example_mid_a example_mid_b 0]"
  by (simp add: prepare_transfer_dataset_def groupby_position_example position_pairs_example sample_rows_example position_transfer_rows_def pair_at_def
        upt_conv_Cons example_ids_differ Let_def)

text \<open>
  C5. Every row emitted by the transfer-dataset synthesizer has different in-player and
  out-player identifiers, and both identifiers belong to rows of the input data frame
  whose position is the position of the emitted pair.
\<close>

theorem transfer_pairs_distinct_same_position:
  assumes "t \<in> set (prepare_transfer_dataset pick noise df num_pairs)"
  shows "player_in_id t \<noteq> player_out_id t \<and>
         (\<exists>r_in \<in> set df. \<exists>r_out \<in> set df.
            player_id r_in = player_in_id t \<and> player_id r_out = player_out_id t \<and>
            position r_in = transfer_position t \<and> position r_out = transfer_position t)"
proof -
  from assms obtain pos grp where g: "(pos, grp) \<in> set (groupby_position df)"
    and t: "t \<in> set (position_transfer_rows pos
               (sample_rows (pick pos) grp (min (length grp) (position_pairs num_pairs pos * 2)))
               (position_pairs num_pairs pos) (noise pos))"
    by (auto simp: prepare_transfer_dataset_def Let_def)
  define players where
    "players = sample_rows (pick pos) grp (min (length grp) (position_pairs num_pairs pos * 2))"
  from t obtain i where i: "i + 1 < length players"
    and ne: "player_id (players ! i) \<noteq> player_id (players ! (i + 1))"
    and teq: "t = transfer_data pos (players ! i) (players ! (i + 1)) (noise pos i)"
    unfolding players_def [symmetric] using position_transfer_rows_member by blast
  have sub: "\<And>r. r \<in> set players \<Longrightarrow> r \<in> set df \<and> position r = pos"
    unfolding players_def using sample_rows_subset groupby_position_member [OF g]
    by (metis min.cobounded1)
  from i have "players ! i \<in> set players" and "players ! (i + 1) \<in> set players" by simp_all
  then have o: "players ! i \<in> set df \<and> position (players ! i) = pos"
    and n: "players ! (i + 1) \<in> set df \<and> position (players ! (i + 1)) = pos"
    using sub by blast+
  have ids: "player_in_id t = player_id (players ! (i + 1))" "player_out_id t = player_id (players ! i)"
    "transfer_position t = pos"
    by (simp_all add: teq transfer_data_def Let_def)
  from ne ids have "player_in_id t \<noteq> player_out_id t" by simp
  moreover from o n ids have "\<exists>r_in \<in> set df. \<exists>r_out \<in> set df.
            player_id r_in = player_in_id t \<and> player_id r_out = player_out_id t \<and>
            position r_in = transfer_position t \<and> position r_out = transfer_position t"
    by metis
  ultimately show ?thesis by blast
qed

theorem transfer_pairs_distinct_same_position_witness:
  "transfer_data ''MID'' example_mid_a example_mid_b 0
     \<in> set (prepare_transfer_dataset (\<lambda>p k. k) (\<lambda>p k. 0) [example_mid_a, example_mid_b] 10) \<and>
   player_in_id (transfer_data ''MID'' example_mid_a example_mid_b 0) = 2 \<and>
   player_out_id (transfer_data ''MID'' example_mid_a example_mid_b 0) = 1 \<and>
   transfer_position (transfer_data ''MID'' example_mid_a example_mid_b 0) = ''MID''"
proof -
  have mem: "transfer_data ''MID'' example_mid_a example_mid_b 0
     \<in> set (prepare_transfer_dataset (\<lambda>p k. k) (\<lambda>p k. 0) [example_mid_a, example_mid_b] 10)"
    by (simp add: prepare_transfer_dataset_example)
  show ?thesis
    using mem transfer_pairs_distinct_same_position [OF mem]
    by (simp add: transfer_data_def example_mid_a_def example_mid_b_def)
qed

subsection \<open>Restoration of the main dataset\<close>

lemma backup_csv_neq: "backup_csv main_csv unique_id \<noteq> main_csv"
  by (simp add: backup_csv_def)

text \<open>
  When the main dataset file exists, the write of the augmented text succeeds and
  transfer-model training leaves the backup file alone, the step ends with the main
  dataset file holding its original content again and the backup file gone, on both
  exit paths of training: when it returns, and when it raises (the exception is then
  raised again after the restoration).
\<close>

lemma main_dataset_restored:
  assumes "fs main_csv = Some original"
    and "\<And>fs'. snd (train fs') (backup_csv main_csv unique_id) = fs' (backup_csv main_csv unique_id)"
  shows "snd (transfer_training_step train main_csv unique_id augmented None fs) main_csv = Some original \<and>
         snd (transfer_training_step train main_csv unique_id augmented None fs) (backup_csv main_csv unique_id) = None \<and>
         fst (transfer_training_step train main_csv unique_id augmented None fs) =
           (case fst (train ((fs(backup_csv main_csv unique_id \<mapsto> original))(main_csv \<mapsto> augmented))) of
              Some e \<Rightarrow> Inl e | None \<Rightarrow> Inr ())"
proof -
  define bk where "bk = backup_csv main_csv unique_id"
  define fs2 where "fs2 = (fs(bk \<mapsto> original))(main_csv \<mapsto> augmented)"
  have ne: "bk \<noteq> main_csv" unfolding bk_def by (rule backup_csv_neq)
  obtain raised fs3 where tr: "train fs2 = (raised, fs3)" by (cases "train fs2")
  have "fs2 bk = Some original" using ne by (simp add: fs2_def)
  with assms(2) [of fs2] tr have fs3: "fs3 bk = Some original" by (simp add: bk_def)
  have step: "transfer_training_step train main_csv unique_id augmented None fs =
     (case raised of Some e \<Rightarrow> (Inl e, (fs3(main_csv \<mapsto> original))(bk := None))
      | None \<Rightarrow> (Inr (), (fs3(main_csv \<mapsto> original))(bk := None)))"
    using assms(1) tr fs3
    by (simp add: transfer_training_step_def copy2_def to_csv_def move_def Let_def
        bk_def [symmetric] fs2_def [symmetric])
  show ?thesis
    using ne tr by (simp add: step bk_def [symmetric] fs2_def [symmetric] split: option.splits)
qed

lemma main_dataset_restored_example:
  "snd (transfer_training_step
          (\<lambda>fs. (Some (Exception ''training failed''), fs(''models/transfer_basic.joblib'' \<mapsto> ''m'')))
          ''main/data.csv'' ''41_170'' ''id,next_gw_points'' None
          (Map.empty(''main/data.csv'' \<mapsto> ''id''))) ''main/data.csv'' = Some ''id'' \<and>
   fst (transfer_training_step
          (\<lambda>fs. (Some (Exception ''training failed''), fs(''models/transfer_basic.joblib'' \<mapsto> ''m'')))
          ''main/data.csv'' ''41_170'' ''id,next_gw_points'' None
          (Map.empty(''main/data.csv'' \<mapsto> ''id''))) = Inl (Exception ''training failed'')"
  using main_dataset_restored [of "Map.empty(''main/data.csv'' \<mapsto> ''id'')" "''main/data.csv''" "''id''"
      "\<lambda>fs. (Some (Exception ''training failed''), fs(''models/transfer_basic.joblib'' \<mapsto> ''m''))"
      "''41_170''" "''id,next_gw_points''"]
  by (simp add: backup_csv_def)

text \<open>
  C1 at a run in which the write of the augmented text fails after two characters:
  the exception leaves the step before the \<^verbatim>\<open>try\<close> statement is entered, so nothing is
  restored. The main dataset file holds the truncated text, not its original content,
  and the backup file is left behind. Training is never called.
\<close>

theorem failed_write_not_restored:
  "fst (transfer_training_step train ''main/data.csv'' ''41_170'' ''id,next_gw_points''
          (Some (WriteFails OSError 2)) (Map.empty(''main/data.csv'' \<mapsto> ''id,name'')))
     = Inl OSError \<and>
   snd (transfer_training_step train ''main/data.csv'' ''41_170'' ''id,next_gw_points''
          (Some (WriteFails OSError 2)) (Map.empty(''main/data.csv'' \<mapsto> ''id,name'')))
       ''main/data.csv'' = Some ''id'' \<and>
   snd (transfer_training_step train ''main/data.csv'' ''41_170'' ''id,next_gw_points''
          (Some (WriteFails OSError 2)) (Map.empty(''main/data.csv'' \<mapsto> ''id,name'')))
       ''main/data.csv.bak_41_170'' = Some ''id,name''"
  by (simp add: transfer_training_step_def copy2_def to_csv_def backup_csv_def)

subsection \<open>Team rating\<close>

lemma fold_count_positions:
  "fold (\<lambda>p m. m(p_position p := m (p_position p) + 1)) ps m k =
     m k + int (length (filter (\<lambda>p. p_position p = k) ps))"
  by (induction ps arbitrary: m) auto

lemma count_positions_eq: "count_positions ps k = position_count ps k"
  by (simp add: count_positions_def position_count_def fold_count_positions)

lemma injury_step_fst: "fst (injury_step p st) = fst st - (if unavailable p then 5 else 0)"
  by (auto simp: injury_step_def unavailable_def split: option.splits)

lemma fold_injury_step_fst:
  "fst (fold injury_step ps st) = fst st - 5 * int (length (filter unavailable ps))"
  by (induction ps arbitrary: st) (auto simp: injury_step_fst)

lemma balance_step_fst: "fst (balance_step short msg st) = fst st - (if short then 10 else 0)"
  by (simp add: balance_step_def)

lemma rate_team_try_raises:
  assumes "count_hard_fixtures fixture_difficulty (t_players team) 0 = Inl e"
  shows "rate_team_try fixture_difficulty team = Inl e"
  using assms by (simp add: rate_team_try_def Let_def)

lemma balance_checks_fst:
  "fst (balance_checks ps) = 100
     - (if position_count ps ''GK'' < 2 then 10 else 0)
     - (if position_count ps ''DEF'' < 4 then 10 else 0)
     - (if position_count ps ''MID'' < 4 then 10 else 0)
     - (if position_count ps ''FWD'' < 2 then 10 else 0)"
  by (simp add: balance_checks_def Let_def balance_step_fst count_positions_eq)

lemma hard_fixture_step_fst:
  "fst (hard_fixture_step h st) = fst st - (if h > 6 then 15 else 0)"
  by (simp add: hard_fixture_step_def)

lemma value_step_fst:
  "fst (value_step ps st) = fst st - (if sum_list (map p_price ps) < 90 then 10 else 0)"
  by (simp add: value_step_def)

lemma rate_team_try_returns:
  assumes "count_hard_fixtures fixture_difficulty (t_players team) 0 = Inr h"
  shows "\<exists>sg rt. rate_team_try fixture_difficulty team =
           Inr (Returned \<lparr>score = of_int (max 0 (reachable_score (t_players team) h)),
                          suggestions = Some sg, rating = Some rt\<rparr>)"
proof -
  define st where "st = value_step (t_players team) (hard_fixture_step h
      (fold injury_step (t_players team) (balance_checks (t_players team))))"
  have "fst st = reachable_score (t_players team) h"
    unfolding st_def reachable_score_def value_step_fst hard_fixture_step_fst
      fold_injury_step_fst balance_checks_fst by simp
  moreover have "rate_team_try fixture_difficulty team = Inr (Returned (rating_of st))"
    using assms by (simp add: rate_team_try_def Let_def st_def)
  ultimately show ?thesis by (simp add: rating_of_def)
qed

lemma rate_team_example_raises:
  "rate_team example_fixtures example_team 3 =
     Inr \<lparr>score = 80,
           suggestions = Some [], rating = Some ''Good''\<rparr>"
  by (simp add: rate_team_def rate_team_with_def then_block_def try_except_def rate_team_try_def
      rate_team_except_def example_team_def example_fixtures_def avg_diff_of_def py_ge_num_def
      num_of_def mock_team_rating_def round1_def Let_def)

lemma rate_team_example_returns:
  "rate_team example_good_fixtures example_team 3 =
     Inr \<lparr>score = 50,
           suggestions = Some [''Add a backup goalkeeper.'', ''Increase defensive depth.'',
             ''Increase midfield depth.'',
             ''Increase forward depth.'', ''Consider upgrading to higher-value players.''],
           rating = Some ''Needs Improvement''\<rparr>"
  by (simp add: rate_team_def rate_team_with_def then_block_def try_except_def rate_team_try_def
      example_team_def example_good_fixtures_def avg_diff_of_def py_ge_num_def
      num_of_def balance_checks_def balance_step_def count_positions_def injury_step_def
      hard_fixture_step_def value_step_def rating_of_def Let_def)

text \<open>
  C9. Whatever statements follow the \<^verbatim>\<open>try\<close> statement, \<open>rate_team\<close> returns the same
  result: the statements of lines 78-96 never run. The result is the mock rating when
  the \<^verbatim>\<open>try\<close> block raises (a fixture difficulty that is not a number), and otherwise
  the rating of the reachable path, whose score is the closed form \<open>reachable_score\<close>
  floored at 0.
\<close>

theorem post_return_block_unreachable:
  "rate_team_with rest fixture_difficulty team gameweek = rate_team fixture_difficulty team gameweek \<and>
   (case count_hard_fixtures fixture_difficulty (t_players team) 0 of
      Inl e \<Rightarrow> rate_team fixture_difficulty team gameweek = Inr (mock_team_rating team gameweek)
    | Inr h \<Rightarrow> (\<exists>sg rt. rate_team fixture_difficulty team gameweek =
                   Inr \<lparr>score = of_int (max 0 (reachable_score (t_players team) h)),
                        suggestions = Some sg, rating = Some rt\<rparr>))"
proof (cases "count_hard_fixtures fixture_difficulty (t_players team) 0")
  case (Inl e)
  then have "rate_team_try fixture_difficulty team = Inl e" by (rule rate_team_try_raises)
  then have "\<And>rest. rate_team_with rest fixture_difficulty team gameweek = Inr (mock_team_rating team gameweek)"
    by (simp add: rate_team_with_def try_except_def then_block_def rate_team_except_def)
  with Inl show ?thesis by (simp add: rate_team_def)
next
  case (Inr h)
  from rate_team_try_returns [OF Inr] obtain sg rt where
    "rate_team_try fixture_difficulty team =
           Inr (Returned \<lparr>score = of_int (max 0 (reachable_score (t_players team) h)),
                          suggestions = Some sg, rating = Some rt\<rparr>)" by blast
  then have "\<And>rest. rate_team_with rest fixture_difficulty team gameweek =
      Inr \<lparr>score = of_int (max 0 (reachable_score (t_players team) h)),
                          suggestions = Some sg, rating = Some rt\<rparr>"
    by (simp add: rate_team_with_def try_except_def then_block_def)
  with Inr show ?thesis by (simp add: rate_team_def)
qed

subsection \<open>Ingestion cache\<close>

lemma get_bootstrap_data_hit:
  assumes "bootstrap_data c = Some d" "py_truthy d" "bootstrap_timestamp c = Some ts" "now - ts \<le> CACHE_EXPIRY"
  shows "get_bootstrap_data now response now' c = (Inr d, c, 0)"
  using assms by (simp add: get_bootstrap_data_def is_bootstrap_expired_def)

lemma get_bootstrap_data_expired:
  assumes "bootstrap_timestamp c = Some ts" "now - ts > CACHE_EXPIRY"
  shows "get_bootstrap_data now (Inr payload) now' c =
           (if payload = RNone then Inl AssertionError else Inr payload,
            c\<lparr>bootstrap_data := Some payload, bootstrap_timestamp := Some now'\<rparr>, 1)"
  using assms by (simp add: get_bootstrap_data_def is_bootstrap_expired_def split: option.splits)

lemma get_fixtures_data_hit:
  assumes "fixtures_data c = Some d" "py_truthy d" "fixtures_timestamp c = Some ts" "now - ts \<le> CACHE_EXPIRY"
  shows "get_fixtures_data now response now' c = (Inr d, c, 0)"
  using assms by (simp add: get_fixtures_data_def is_fixtures_expired_def)

lemma get_fixtures_data_expired:
  assumes "fixtures_timestamp c = Some ts" "now - ts > CACHE_EXPIRY"
  shows "get_fixtures_data now (Inr payload) now' c =
           (if payload = RNone then Inl AssertionError else Inr payload,
            c\<lparr>fixtures_data := Some payload, fixtures_timestamp := Some now'\<rparr>, 1)"
  using assms by (simp add: get_fixtures_data_def is_fixtures_expired_def split: option.splits)

lemma get_player_detail_data_hit:
  assumes "player_details_cache c pid = Some d" "player_details_timestamp c pid = Some ts"
    "now - ts \<le> CACHE_EXPIRY"
  shows "get_player_detail_data pid now response now' c = (Inr d, c, 0)"
  using assms by (simp add: get_player_detail_data_def is_player_details_expired_def)

lemma get_player_detail_data_expired:
  assumes "player_details_timestamp c pid = Some ts" "now - ts > CACHE_EXPIRY"
  shows "get_player_detail_data pid now (Inr payload) now' c =
           (Inr payload,
            c\<lparr>player_details_cache := (player_details_cache c)(pid \<mapsto> payload),
              player_details_timestamp := (player_details_timestamp c)(pid \<mapsto> now')\<rparr>, 1)"
  using assms by (simp add: get_player_detail_data_def is_player_details_expired_def split: option.splits)


lemma get_bootstrap_data_frame:
  "fixtures_data (fst (snd (get_bootstrap_data now response now' c))) = fixtures_data c \<and>
   fixtures_timestamp (fst (snd (get_bootstrap_data now response now' c))) = fixtures_timestamp c \<and>
   player_details_cache (fst (snd (get_bootstrap_data now response now' c))) = player_details_cache c \<and>
   player_details_timestamp (fst (snd (get_bootstrap_data now response now' c))) = player_details_timestamp c"
  by (simp add: get_bootstrap_data_def split: option.splits sum.splits)

lemma get_fixtures_data_frame:
  "bootstrap_data (fst (snd (get_fixtures_data now response now' c))) = bootstrap_data c \<and>
   bootstrap_timestamp (fst (snd (get_fixtures_data now response now' c))) = bootstrap_timestamp c \<and>
   player_details_cache (fst (snd (get_fixtures_data now response now' c))) = player_details_cache c \<and>
   player_details_timestamp (fst (snd (get_fixtures_data now response now' c))) = player_details_timestamp c"
  by (simp add: get_fixtures_data_def split: option.splits sum.splits)

lemma get_player_detail_data_frame:
  "bootstrap_data (fst (snd (get_player_detail_data pid now response now' c))) = bootstrap_data c \<and>
   bootstrap_timestamp (fst (snd (get_player_detail_data pid now response now' c))) = bootstrap_timestamp c \<and>
   fixtures_data (fst (snd (get_player_detail_data pid now response now' c))) = fixtures_data c \<and>
   fixtures_timestamp (fst (snd (get_player_detail_data pid now response now' c))) = fixtures_timestamp c"
  by (simp add: get_player_detail_data_def split: option.splits sum.splits)

lemma get_player_detail_data_other:
  assumes "other \<noteq> pid"
  shows "player_details_cache (fst (snd (get_player_detail_data pid now response now' c))) other
           = player_details_cache c other \<and>
         player_details_timestamp (fst (snd (get_player_detail_data pid now response now' c))) other
           = player_details_timestamp c other"
  using assms by (simp add: get_player_detail_data_def split: option.splits sum.splits)

text \<open>
  C8, as the code has it. For the bootstrap and the fixtures resource, a payload that is
  not empty, requested again no more than one hour after it was stored, is returned
  from the cache, with no upstream request and the cache unchanged; requested later
  than that, it is fetched again with exactly one upstream request, and the new payload
  is stored with the time of storing and returned; a new payload that is \<^verbatim>\<open>None\<close> is
  stored too, and the call then fails its assertion. For the details of a player the
  same holds for every payload, with no assertion, and a request for one player leaves
  the payload and the timestamp of every other player unchanged. The three resources
  do not touch each other's timestamps.
\<close>

theorem cache_ttl_per_key:
  "(py_truthy p \<and> t1 - t0 \<le> CACHE_EXPIRY \<longrightarrow>
      get_bootstrap_data t1 response t1' (c\<lparr>bootstrap_data := Some p, bootstrap_timestamp := Some t0\<rparr>)
        = (Inr p, c\<lparr>bootstrap_data := Some p, bootstrap_timestamp := Some t0\<rparr>, 0)) \<and>
   (t2 - t0 > CACHE_EXPIRY \<longrightarrow>
      get_bootstrap_data t2 (Inr q) t2' (c\<lparr>bootstrap_data := Some p, bootstrap_timestamp := Some t0\<rparr>)
        = (if q = RNone then Inl AssertionError else Inr q,
           c\<lparr>bootstrap_data := Some q, bootstrap_timestamp := Some t2'\<rparr>, 1)) \<and>
   (py_truthy p \<and> t1 - t0 \<le> CACHE_EXPIRY \<longrightarrow>
      get_fixtures_data t1 response t1' (c\<lparr>fixtures_data := Some p, fixtures_timestamp := Some t0\<rparr>)
        = (Inr p, c\<lparr>fixtures_data := Some p, fixtures_timestamp := Some t0\<rparr>, 0)) \<and>
   (t2 - t0 > CACHE_EXPIRY \<longrightarrow>
      get_fixtures_data t2 (Inr q) t2' (c\<lparr>fixtures_data := Some p, fixtures_timestamp := Some t0\<rparr>)
        = (if q = RNone then Inl AssertionError else Inr q,
           c\<lparr>fixtures_data := Some q, fixtures_timestamp := Some t2'\<rparr>, 1)) \<and>
   (t1 - t0 \<le> CACHE_EXPIRY \<longrightarrow>
      get_player_detail_data pid t1 response t1'
          (c\<lparr>player_details_cache := (player_details_cache c)(pid \<mapsto> p),
             player_details_timestamp := (player_details_timestamp c)(pid \<mapsto> t0)\<rparr>)
        = (Inr p, c\<lparr>player_details_cache := (player_details_cache c)(pid \<mapsto> p),
                    player_details_timestamp := (player_details_timestamp c)(pid \<mapsto> t0)\<rparr>, 0)) \<and>
   (t2 - t0 > CACHE_EXPIRY \<longrightarrow>
      get_player_detail_data pid t2 (Inr q) t2'
          (c\<lparr>player_details_cache := (player_details_cache c)(pid \<mapsto> p),
             player_details_timestamp := (player_details_timestamp c)(pid \<mapsto> t0)\<rparr>)
        = (Inr q, c\<lparr>player_details_cache := (player_details_cache c)(pid \<mapsto> q),
                    player_details_timestamp := (player_details_timestamp c)(pid \<mapsto> t2')\<rparr>, 1)) \<and>
   (other \<noteq> pid \<longrightarrow>
      player_details_cache (fst (snd (get_player_detail_data pid t response t' c))) other
        = player_details_cache c other \<and>
      player_details_timestamp (fst (snd (get_player_detail_data pid t response t' c))) other
        = player_details_timestamp c other) \<and>
   bootstrap_timestamp (fst (snd (get_player_detail_data pid t response t' c))) = bootstrap_timestamp c \<and>
   fixtures_timestamp (fst (snd (get_player_detail_data pid t response t' c))) = fixtures_timestamp c \<and>
   fixtures_timestamp (fst (snd (get_bootstrap_data t response t' c))) = fixtures_timestamp c \<and>
   player_details_timestamp (fst (snd (get_bootstrap_data t response t' c))) = player_details_timestamp c \<and>
   bootstrap_timestamp (fst (snd (get_fixtures_data t response t' c))) = bootstrap_timestamp c \<and>
   player_details_timestamp (fst (snd (get_fixtures_data t response t' c))) = player_details_timestamp c"
proof (intro conjI impI)
  assume h: "py_truthy p \<and> t1 - t0 \<le> CACHE_EXPIRY"
  show "get_bootstrap_data t1 response t1' (c\<lparr>bootstrap_data := Some p, bootstrap_timestamp := Some t0\<rparr>)
        = (Inr p, c\<lparr>bootstrap_data := Some p, bootstrap_timestamp := Some t0\<rparr>, 0)"
    using h by (intro get_bootstrap_data_hit [where ts = t0]) simp_all
  show "get_fixtures_data t1 response t1' (c\<lparr>fixtures_data := Some p, fixtures_timestamp := Some t0\<rparr>)
        = (Inr p, c\<lparr>fixtures_data := Some p, fixtures_timestamp := Some t0\<rparr>, 0)"
    using h by (intro get_fixtures_data_hit [where ts = t0]) simp_all
next
  assume h: "t2 - t0 > CACHE_EXPIRY"
  show "get_bootstrap_data t2 (Inr q) t2' (c\<lparr>bootstrap_data := Some p, bootstrap_timestamp := Some t0\<rparr>)
        = (if q = RNone then Inl AssertionError else Inr q,
           c\<lparr>bootstrap_data := Some q, bootstrap_timestamp := Some t2'\<rparr>, 1)"
    using h get_bootstrap_data_expired [of "c\<lparr>bootstrap_data := Some p, bootstrap_timestamp := Some t0\<rparr>" t0 t2 q t2']
    by simp
  show "get_fixtures_data t2 (Inr q) t2' (c\<lparr>fixtures_data := Some p, fixtures_timestamp := Some t0\<rparr>)
        = (if q = RNone then Inl AssertionError else Inr q,
           c\<lparr>fixtures_data := Some q, fixtures_timestamp := Some t2'\<rparr>, 1)"
    using h get_fixtures_data_expired [of "c\<lparr>fixtures_data := Some p, fixtures_timestamp := Some t0\<rparr>" t0 t2 q t2']
    by simp
  show "get_player_detail_data pid t2 (Inr q) t2'
          (c\<lparr>player_details_cache := (player_details_cache c)(pid \<mapsto> p),
             player_details_timestamp := (player_details_timestamp c)(pid \<mapsto> t0)\<rparr>)
        = (Inr q, c\<lparr>player_details_cache := (player_details_cache c)(pid \<mapsto> q),
                    player_details_timestamp := (player_details_timestamp c)(pid \<mapsto> t2')\<rparr>, 1)"
    using h get_player_detail_data_expired [of "c\<lparr>player_details_cache := (player_details_cache c)(pid \<mapsto> p),
             player_details_timestamp := (player_details_timestamp c)(pid \<mapsto> t0)\<rparr>" pid t0 t2 q t2']
    by simp
next
  assume h: "t1 - t0 \<le> CACHE_EXPIRY"
  show "get_player_detail_data pid t1 response t1'
          (c\<lparr>player_details_cache := (player_details_cache c)(pid \<mapsto> p),
             player_details_timestamp := (player_details_timestamp c)(pid \<mapsto> t0)\<rparr>)
        = (Inr p, c\<lparr>player_details_cache := (player_details_cache c)(pid \<mapsto> p),
                    player_details_timestamp := (player_details_timestamp c)(pid \<mapsto> t0)\<rparr>, 0)"
    using h by (intro get_player_detail_data_hit [where ts = t0]) simp_all
next
  assume "other \<noteq> pid"
  then show "player_details_cache (fst (snd (get_player_detail_data pid t response t' c))) other
        = player_details_cache c other"
    and "player_details_timestamp (fst (snd (get_player_detail_data pid t response t' c))) other
        = player_details_timestamp c other"
    using get_player_detail_data_other by blast+
qed (simp_all add: get_bootstrap_data_frame get_fixtures_data_frame get_player_detail_data_frame)

theorem cache_ttl_per_key_witness:
  "py_truthy (RList [RInt 1]) \<and> (10::real) - 0 \<le> CACHE_EXPIRY \<and> (4000::real) - 0 > CACHE_EXPIRY \<and> (8::int) \<noteq> 7 \<and>
   get_fixtures_data 10 (Inl (RequestError ''down'')) 10
       (new_cache\<lparr>fixtures_data := Some (RList [RInt 1]), fixtures_timestamp := Some 0\<rparr>)
     = (Inr (RList [RInt 1]),
        new_cache\<lparr>fixtures_data := Some (RList [RInt 1]), fixtures_timestamp := Some 0\<rparr>, 0) \<and>
   get_fixtures_data 4000 (Inr (RList [RInt 2])) 4001
       (new_cache\<lparr>fixtures_data := Some (RList [RInt 1]), fixtures_timestamp := Some 0\<rparr>)
     = (Inr (RList [RInt 2]),
        new_cache\<lparr>fixtures_data := Some (RList [RInt 2]), fixtures_timestamp := Some 4001\<rparr>, 1)"
  using cache_ttl_per_key [of "RList [RInt 1]" 10 0 "Inl (RequestError ''down'')" 10 new_cache
      4000 "RList [RInt 2]" 4001 7 8]
  by (simp add: py_truthy_def CACHE_EXPIRY_def)

text \<open>
  C8 as stated fails for an empty payload: the fixtures list \<^verbatim>\<open>[]\<close>, stored at time 0
  and requested again 10 seconds later, is fetched from upstream a second time.
\<close>

theorem empty_payload_refetched_counterexample:
  "snd (snd (get_fixtures_data 10 (Inr (RList [])) 10
               (fst (snd (get_fixtures_data 0 (Inr (RList [])) 0 new_cache))))) = 1"
  by (simp add: get_fixtures_data_def new_cache_def is_fixtures_expired_def py_truthy_def
      CACHE_EXPIRY_def)

subsection \<open>Tiered model loading\<close>

lemma try_tiers_first_loadable:
  assumes "\<forall>t \<in> set pre. \<not> (tier_files_exist fs model_dir pos t \<and>
              pc_load cls \<lparr>pr_model_type = t, pr_position = upper pos\<rparr>)"
    and "tier_files_exist fs model_dir pos tier"
    and "pc_load cls \<lparr>pr_model_type = tier, pr_position = upper pos\<rparr>"
  shows "try_tiers cls fs model_dir pos (pre @ tier # post) cur =
           (Some \<lparr>pr_model_type = tier, pr_position = upper pos\<rparr>,
            filter (tier_files_exist fs model_dir pos) pre @ [tier])"
  using assms by (induction pre arbitrary: cur) (auto simp: Let_def)

lemma try_tiers_no_files:
  assumes "\<forall>t \<in> set tiers. \<not> tier_files_exist fs model_dir pos t"
  shows "try_tiers cls fs model_dir pos tiers cur = (cur, [])"
  using assms by (induction tiers arbitrary: cur) auto

lemma predict_row_no_predictor:
  assumes "preds (lower (mr_position row)) = None"
  shows "predict_row cls preds row = row_get0 row ''points_per_game''"
  using assms by (simp add: predict_row_def)

lemma try_tiers_example_gk: "try_tiers failing_class example_model_dir ''models'' ''gk'' tier_priority None
  = (Some \<lparr>pr_model_type = ''basic'', pr_position = ''GK''\<rparr>, [''basic''])"
  by (simp add: tier_priority_def tier_files_exist_def path_exists_def path_join_def
     example_model_dir_def failing_class_def upper_def upper_char_def Let_def)

lemma try_tiers_example_other: "pos \<noteq> ''gk'' \<Longrightarrow> try_tiers failing_class example_model_dir ''models'' pos tier_priority None
  = (None, [])"
  by (simp add: tier_priority_def tier_files_exist_def path_exists_def path_join_def
     example_model_dir_def failing_class_def upper_def upper_char_def Let_def)

text \<open>
  C3 at a model directory whose only artifact, the basic tier for goalkeepers, fails to
  load: the dictionary keeps the predictor that failed to load, so no warning is
  logged for goalkeepers, unlike for the three positions that have no artifact.
\<close>

theorem unloaded_predictor_kept_without_warning:
  "predictors (load_predictors failing_class example_model_dir ''models'') ''gk''
     = Some \<lparr>pr_model_type = ''basic'', pr_position = ''GK''\<rparr> \<and>
   pc_load failing_class \<lparr>pr_model_type = ''basic'', pr_position = ''GK''\<rparr> = False \<and>
   warnings (load_predictors failing_class example_model_dir ''models'')
     = [''No points predictor model found for position DEF. Will fallback to points_per_game.'',
        ''No points predictor model found for position MID. Will fallback to points_per_game.'',
        ''No points predictor model found for position FWD. Will fallback to points_per_game.'']"
  by (simp add: load_predictors_def positions_def load_position_def try_tiers_example_gk try_tiers_example_other upper_def upper_char_def)
   (simp add: failing_class_def)

subsection \<open>Feature extraction\<close>

lemma bind_err_Inr:
  "bind_err m f = Inr y \<longleftrightarrow> (\<exists>x. m = Inr x \<and> f x = Inr y)"
  by (cases m) (simp_all add: bind_err_def)


lemma collect_map_of:
  "collect xs = Inr ys \<Longrightarrow> map_of xs k = Some r \<Longrightarrow> \<exists>v. r = Inr v \<and> map_of ys k = Some v"
  by (induction xs arbitrary: ys) (auto split: sum.splits if_splits)


lemma dict_set_keys:
  "map fst (dict_set d k v) = (if k \<in> set (map fst d) then map fst d else map fst d @ [k])"
  by (induction d k v rule: dict_set.induct) auto

lemma dict_set_distinct: "distinct (map fst d) \<Longrightarrow> distinct (map fst (dict_set d k v))"
  by (simp add: dict_set_keys)

lemma dict_set_subset: "set (dict_set d k v) \<subseteq> insert (k, v) (set d)"
  by (induction d k v rule: dict_set.induct) auto

lemma dict_set_values:
  assumes "\<forall>kv \<in> set d. P (snd kv)" and "P v"
  shows "\<forall>kv \<in> set (dict_set d k v). P (snd kv)"
proof
  fix kv assume "kv \<in> set (dict_set d k v)"
  then have "kv = (k, v) \<or> kv \<in> set d" using dict_set_subset by fastforce
  then show "P (snd kv)" using assms by auto
qed

lemma float_bound_large: "(2::real) ^ 64 \<le> float_overflow_bound"
  by (simp add: float_overflow_bound_def)

lemma to_double_small: "\<bar>x\<bar> < 2 ^ 64 \<Longrightarrow> to_double x = Fin x"
  using float_bound_large by (auto simp: to_double_def)

lemma py_float_RInt_small:
  assumes "\<bar>i\<bar> < 2 ^ 64"
  shows "py_float (RInt i) = Inr (Fin (of_int i))"
proof -
  have "real_of_int \<bar>i\<bar> < real_of_int (2 ^ 64)" using assms by (simp only: of_int_less_iff)
  then have "\<bar>real_of_int i\<bar> < 2 ^ 64" by simp
  with float_bound_large show ?thesis by (simp add: py_float_def)
qed

lemma py_float_others:
  "py_float RNone = Inl TypeError"
  "py_float (RFloat x) = Inr (Fin x)"
  "py_float (RStr s) = (case parse_float s of None \<Rightarrow> Inl ValueError | Some f \<Rightarrow> Inr f)"
  "py_float (RList l) = Inl TypeError"
  "py_float (RDict d) = Inl TypeError"
  by (simp_all add: py_float_def)

lemmas py_float_eval = py_float_others py_float_RInt_small

lemmas parse_defs = parse_float_def parse_decimal_def parse_exponent_def split_first_def split_sign_def
  strip_def is_space_def digit_group_def is_digit_def digit_val_def digits_value_def count_digits_def
  scale10_def lower_def lower_char_def replace_comma_def to_double_small


















lemmas arith_defs = bind_err_def dict_get_def dict_item_def py_floordiv_def py_truediv_def py_add_def
  py_max_def py_gt_num_def num_of_def rate_per_game_def rate_per_90_def

lemmas convert_defs = convert_player_to_features_def derive_def feature_items_def float_get0_def
  form_of_def price_of_def ownership_of_def py_float_eval Let_def

lemma training_derive_bad_ownership: "training_derive example_bad_ownership = Inl ValueError"
  by (simp add: training_derive_def example_bad_ownership_def arith_defs py_iter_def
      training_form_of_def py_truthy_def py_float_eval recent_form_of_def training_ownership_of_def
      parse_defs)

lemma convert_bad_ownership:
  "\<exists>fs. convert_player_to_features example_bad_ownership = Inr fs \<and>
        map_of fs ''ownership_percentage'' = Some (Fin 0)"
  by (simp add: convert_defs example_bad_ownership_def arith_defs parse_defs)

text \<open>
  C7 at a record whose ownership text is \<^verbatim>\<open>N/A\<close>: the training extractor raises the
  \<^verbatim>\<open>ValueError\<close> of the failed parse to its caller, where the inference extractor
  resolves the same field to 0.0.
\<close>

theorem training_ownership_parse_failure_propagates:
  "process_player_features py_str example_bad_ownership = Inl ValueError \<and>
   (case convert_player_to_features example_bad_ownership of
      Inr fs \<Rightarrow> map_of fs ''ownership_percentage'' = Some (Fin 0)
    | Inl e \<Rightarrow> False)"
  using convert_bad_ownership
  by (auto simp: process_player_features_def training_derive_bad_ownership bind_err_def)

lemma ownership_comma_example:
  "ownership_of (RStr ''12,5'') = Inr (Fin 12.5) \<and>
   training_ownership_of (RStr ''12,5'') = Inr (Fin 12.5)"
  by (simp add: ownership_of_def training_ownership_of_def parse_defs)

lemma ownership_of_string_never_raises:
  "ownership_of (RStr s) = Inr (case parse_float (replace_comma s) of None \<Rightarrow> Fin 0 | Some f \<Rightarrow> f)"
  by (simp add: ownership_of_def)

text \<open>
  C2 as stated fails at inference time for a player with fewer than 60 minutes: the
  code gives the substitute 1 point per game, the formulas of the specification give 0.
\<close>

theorem inference_games_played_counterexample:
  "(case convert_player_to_features example_substitute of
      Inr fs \<Rightarrow> map_of fs ''points_per_game'' = Some (Fin 1)
    | Inl e \<Rightarrow> False) \<and>
   spec_points_per_game 1 (of_int (spec_games_played_inference 30)) = 0"
  by (simp add: convert_defs example_substitute_def arith_defs parse_defs
      spec_points_per_game_def spec_games_played_inference_def)

lemma num_of_RInt: "num_of (RInt i) = Some (of_int i)"
  by (simp add: num_of_def)

lemma floor_div_60: "\<lfloor>real_of_int x / 60\<rfloor> = x div 60"
  using floor_divide_of_int_eq [of x 60] by simp

lemma py_floordiv_60:
  assumes "py_floordiv a (RInt 60) = Inr q"
  shows "\<exists>m. num_of a = Some m \<and> num_of q = Some (of_int \<lfloor>m / 60\<rfloor>)"
  using assms
  by (cases a) (auto simp: py_floordiv_def num_of_def floor_div_60 split: if_splits)

lemma py_max_1_num:
  assumes "num_of q = Some y"
  shows "\<exists>g. py_max (RInt 1) q = Inr g \<and> num_of g = Some (max 1 y)"
  using assms by (auto simp: py_max_def num_of_RInt max_def)

lemma py_max_1:
  assumes "py_max (RInt 1) q = Inr g"
  shows "\<exists>y. num_of q = Some y \<and> num_of g = Some (max 1 y)"
proof (cases "num_of q")
  case None
  with assms show ?thesis by (simp add: py_max_def num_of_RInt)
next
  case (Some y)
  from py_max_1_num [OF Some] assms show ?thesis using Some by auto
qed

lemma py_truediv_Inr:
  assumes "py_truediv a b = Inr r"
  shows "\<exists>x y. num_of a = Some x \<and> num_of b = Some y \<and> y \<noteq> 0 \<and> r = x / y"
  using assms by (auto simp: py_truediv_def split: option.splits if_splits)

lemma rate_per_game_positive:
  assumes "rate_per_game x g = Inr r" and "num_of g = Some gv" and "0 < gv"
  shows "\<exists>xv. num_of x = Some xv \<and> r = RFloat (xv / max 1 gv)"
proof -
  from assms(2,3) have gt: "py_gt_num g 0 = Inr True" by (simp add: py_gt_num_def)
  from assms(1) gt have
    "bind_err (py_max (RInt 1) g) (\<lambda>m. bind_err (py_truediv x m) (\<lambda>q. Inr (RFloat q))) = Inr r"
    by (simp add: rate_per_game_def bind_err_def)
  then obtain m q where m: "py_max (RInt 1) g = Inr m"
    and q: "py_truediv x m = Inr q" and r: "r = RFloat q"
    by (auto simp: bind_err_Inr)
  from py_max_1 [OF m] assms(2) have mv: "num_of m = Some (max 1 gv)" by auto
  from py_truediv_Inr [OF q] mv obtain xv where "num_of x = Some xv" and "q = xv / max 1 gv"
    by auto
  with r show ?thesis by blast
qed

lemma rate_per_game_zero:
  assumes "num_of g = Some 0"
  shows "rate_per_game x g = Inr (RInt 0)"
  using assms by (simp add: rate_per_game_def bind_err_def py_gt_num_def)

lemma derive_ppg:
  assumes "derive player_data = Inr d"
  shows "\<exists>tp m. num_of (dict_get player_data ''total_points'' (RInt 0)) = Some tp \<and>
               num_of (dict_get player_data ''minutes'' (RInt 0)) = Some m \<and>
               num_of (d_games_played d) = Some (max 1 (of_int \<lfloor>m / 60\<rfloor>)) \<and>
               d_ppg d = RFloat (tp / max 1 (of_int \<lfloor>m / 60\<rfloor>))"
proof -
  from assms obtain q g ppg where
      q: "py_floordiv (dict_get player_data ''minutes'' (RInt 0)) (RInt 60) = Inr q"
    and g: "py_max (RInt 1) q = Inr g"
    and r: "rate_per_game (dict_get player_data ''total_points'' (RInt 0)) g = Inr ppg"
    and dg: "d_games_played d = g" and dp: "d_ppg d = ppg"
    unfolding derive_def Let_def bind_err_Inr by auto
  from py_floordiv_60 [OF q] obtain m where
    m: "num_of (dict_get player_data ''minutes'' (RInt 0)) = Some m"
    and qv: "num_of q = Some (of_int \<lfloor>m / 60\<rfloor>)" by blast
  from py_max_1 [OF g] qv have gv: "num_of g = Some (max 1 (of_int \<lfloor>m / 60\<rfloor>))" by auto
  have pos: "(0::real) < max 1 (of_int \<lfloor>m / 60\<rfloor>)" by simp
  from rate_per_game_positive [OF r gv pos] obtain tp where
    "num_of (dict_get player_data ''total_points'' (RInt 0)) = Some tp"
    and "ppg = RFloat (tp / max 1 (max 1 (of_int \<lfloor>m / 60\<rfloor>)))" by blast
  then show ?thesis using m gv dg dp by auto
qed

lemma map_of_feature_items_ppg:
  "map_of (feature_items player_data d) ''points_per_game'' = Some (py_float (d_ppg d))"
  by (simp add: feature_items_def)

lemma convert_ppg:
  assumes "convert_player_to_features player_data = Inr fs"
  shows "\<exists>tp m. num_of (dict_get player_data ''total_points'' (RInt 0)) = Some tp \<and>
               num_of (dict_get player_data ''minutes'' (RInt 0)) = Some m \<and>
               map_of fs ''points_per_game'' = Some (Fin (tp / max 1 (of_int \<lfloor>m / 60\<rfloor>)))"
proof -
  from assms obtain d where d: "derive player_data = Inr d"
    and c: "collect (feature_items player_data d) = Inr fs"
    by (auto simp: convert_player_to_features_def bind_err_Inr)
  from derive_ppg [OF d] obtain tp m where
    tp: "num_of (dict_get player_data ''total_points'' (RInt 0)) = Some tp"
    and m: "num_of (dict_get player_data ''minutes'' (RInt 0)) = Some m"
    and ppg: "d_ppg d = RFloat (tp / max 1 (of_int \<lfloor>m / 60\<rfloor>))" by blast
  from collect_map_of [OF c map_of_feature_items_ppg] ppg
  have "map_of fs ''points_per_game'' = Some (Fin (tp / max 1 (of_int \<lfloor>m / 60\<rfloor>)))"
    by (auto simp: py_float_def)
  with tp m show ?thesis by blast
qed

lemma count_played_eq:
  "count_played history = Inr n \<Longrightarrow> n = length (filter played_game history)"
proof (induction history arbitrary: n)
  case Nil
  then show ?case by simp
next
  case (Cons game rest)
  from Cons.prems obtain m played k where
      m: "game_get game ''minutes'' (RInt 0) = Inr m"
    and p: "py_gt_num m 0 = Inr played"
    and k: "count_played rest = Inr k"
    and n: "n = (if played then Suc k else k)"
    by (auto simp: bind_err_Inr)
  from m p have "played = played_game game"
    by (cases game) (auto simp: game_get_def played_game_def py_gt_num_def split: option.splits)
  with Cons.IH [OF k] n show ?case by simp
qed

lemma map_of_training_items_ppg:
  "map_of (training_items py_str player_data d) ''points_per_game'' = Some (Inr (Raw (td_ppg d)))"
  by (simp add: training_items_def raw_get_def)

lemma training_derive_ppg:
  assumes "training_derive player_data = Inr d"
  shows "\<exists>history v. py_iter (dict_get player_data ''history'' (RList [])) = Inr history \<and>
           player_data ''total_points'' = Some v \<and>
           rate_per_game v (RInt (int (length (filter played_game history)))) = Inr (td_ppg d)"
proof -
  from assms obtain mins v history gp ppg where
      v: "dict_item player_data ''total_points'' = Inr v"
    and h: "py_iter (dict_get player_data ''history'' (RList [])) = Inr history"
    and c: "count_played history = Inr gp"
    and r: "rate_per_game v (RInt (int gp)) = Inr ppg"
    and dp: "td_ppg d = ppg"
    unfolding training_derive_def bind_err_Inr by auto
  from v have "player_data ''total_points'' = Some v"
    by (auto simp: dict_item_def split: option.splits)
  moreover from count_played_eq [OF c] r dp have
    "rate_per_game v (RInt (int (length (filter played_game history)))) = Inr (td_ppg d)" by simp
  ultimately show ?thesis using h by blast
qed

lemma process_ppg:
  assumes "process_player_features py_str player_data = Inr fs"
  shows "\<exists>history v. py_iter (dict_get player_data ''history'' (RList [])) = Inr history \<and>
           player_data ''total_points'' = Some v \<and>
           (if length (filter played_game history) = 0
            then map_of fs ''points_per_game'' = Some (Raw (RInt 0))
            else \<exists>tp. num_of v = Some tp \<and>
                   map_of fs ''points_per_game'' =
                     Some (Raw (RFloat (tp / max 1 (real (length (filter played_game history)))))))"
proof -
  from assms obtain d where d: "training_derive player_data = Inr d"
    and c: "collect (training_items py_str player_data d) = Inr fs"
    by (auto simp: process_player_features_def bind_err_Inr)
  from training_derive_ppg [OF d] obtain history v where
      h: "py_iter (dict_get player_data ''history'' (RList [])) = Inr history"
    and v: "player_data ''total_points'' = Some v"
    and r: "rate_per_game v (RInt (int (length (filter played_game history)))) = Inr (td_ppg d)"
    by blast
  from collect_map_of [OF c map_of_training_items_ppg]
  have lk: "map_of fs ''points_per_game'' = Some (Raw (td_ppg d))" by simp
  define gp where "gp = length (filter played_game history)"
  have "if gp = 0
        then map_of fs ''points_per_game'' = Some (Raw (RInt 0))
        else \<exists>tp. num_of v = Some tp \<and>
               map_of fs ''points_per_game'' = Some (Raw (RFloat (tp / max 1 (real gp))))"
  proof (cases "gp = 0")
    case True
    then have "num_of (RInt (int gp)) = Some 0" by (simp add: num_of_RInt)
    from rate_per_game_zero [OF this] r have "td_ppg d = RInt 0" by (simp add: gp_def)
    with lk True show ?thesis by simp
  next
    case False
    then have pos: "(0::real) < real gp" by simp
    have nv: "num_of (RInt (int gp)) = Some (real gp)" by (simp add: num_of_RInt)
    from rate_per_game_positive [OF r [folded gp_def] nv pos] lk False show ?thesis by auto
  qed
  then show ?thesis using h v unfolding gp_def by blast
qed

text \<open>
  C2, as the code has it. Whenever the inference extractor returns, its points per game
  is \<open>total_points / max(1, floor(minutes / 60))\<close>: the games played are at least 1 there,
  so the value 0 for no game played does not arise. Whenever the training extractor
  returns, its points per game is 0 when no history entry has minutes above 0, and
  otherwise \<open>total_points\<close> divided by the number of such entries.
\<close>

theorem points_per_game_extraction:
  "(convert_player_to_features player_data = Inr fs \<longrightarrow>
      (\<exists>tp m. num_of (dict_get player_data ''total_points'' (RInt 0)) = Some tp \<and>
               num_of (dict_get player_data ''minutes'' (RInt 0)) = Some m \<and>
               map_of fs ''points_per_game'' = Some (Fin (tp / max 1 (of_int \<lfloor>m / 60\<rfloor>))))) \<and>
   (process_player_features py_str player_data = Inr fs' \<longrightarrow>
      (\<exists>history v. py_iter (dict_get player_data ''history'' (RList [])) = Inr history \<and>
           player_data ''total_points'' = Some v \<and>
           (if length (filter played_game history) = 0
            then map_of fs' ''points_per_game'' = Some (Raw (RInt 0))
            else \<exists>tp. num_of v = Some tp \<and>
                   map_of fs' ''points_per_game'' =
                     Some (Raw (RFloat (tp / max 1 (real (length (filter played_game history)))))))))"
  using convert_ppg process_ppg by blast

lemma convert_example_player: "\<exists>fs. convert_player_to_features example_player = Inr fs"
  by (simp add: convert_defs example_player_def arith_defs parse_defs)

lemmas training_defs = process_player_features_def training_derive_def training_items_def
  raw_get_def float_get_def py_iter_def game_get_def training_form_of_def py_truthy_def
  recent_form_of_def training_ownership_of_def get_position_name_def py_float_eval

lemma process_example_player: "\<exists>fs. process_player_features (\<lambda>v. ''x'') example_player = Inr fs"
  by (simp add: training_defs example_player_def arith_defs parse_defs)

theorem points_per_game_extraction_witness:
  "\<exists>fs fs'. convert_player_to_features example_player = Inr fs \<and>
     process_player_features (\<lambda>v. ''x'') example_player = Inr fs' \<and>
     map_of fs ''points_per_game'' = Some (Fin (9 / 2)) \<and>
     map_of fs' ''points_per_game'' = Some (Raw (RFloat (9 / 2)))"
proof -
  from convert_example_player obtain fs where
    fs: "convert_player_to_features example_player = Inr fs" by blast
  from process_example_player obtain fs' where
    fs': "process_player_features (\<lambda>v. ''x'') example_player = Inr fs'" by blast
  from points_per_game_extraction [of example_player fs "\<lambda>v. ''x''" fs'] fs fs'
  have "map_of fs ''points_per_game'' = Some (Fin (9 / 2)) \<and>
        map_of fs' ''points_per_game'' = Some (Raw (RFloat (9 / 2)))"
    by (simp add: example_player_def dict_get_def num_of_def py_iter_def played_game_def)
  with fs fs' show ?thesis by blast
qed

subsection \<open>Conforming features to a schema\<close>

























end
